theory Spec2Isabelle
  imports Complex_Main "HOL-Library.Multiset"
begin

section \<open>JavaScript numbers\<close>

text \<open>
  The dashboard computes on JavaScript numbers. A number is modelled as a finite value
  or one of the three special values; \<open>Number.isFinite\<close> tells them apart. Finite
  arithmetic is exact (a \<open>real\<close>): rounding to 64-bit precision, overflow of a finite
  result to an infinity and the sign of zero are outside the model. A zero divisor is
  the positive zero, which is what every divisor of the code is when it is zero (array
  lengths, and the cost basis is checked to be positive before it divides).
\<close>

datatype jsnum = Fin real | PosInf | NegInf | NaN

fun js_isFinite :: "jsnum \<Rightarrow> bool" where
  "js_isFinite (Fin _) = True"
| "js_isFinite _ = False"

fun js_neg :: "jsnum \<Rightarrow> jsnum" where
  "js_neg (Fin a) = Fin (- a)"
| "js_neg PosInf = NegInf"
| "js_neg NegInf = PosInf"
| "js_neg NaN = NaN"

fun js_add :: "jsnum \<Rightarrow> jsnum \<Rightarrow> jsnum" where
  "js_add (Fin a) (Fin b) = Fin (a + b)"
| "js_add NaN _ = NaN"
| "js_add _ NaN = NaN"
| "js_add PosInf NegInf = NaN"
| "js_add NegInf PosInf = NaN"
| "js_add PosInf _ = PosInf"
| "js_add NegInf _ = NegInf"
| "js_add (Fin _) b = b"

definition js_sub :: "jsnum \<Rightarrow> jsnum \<Rightarrow> jsnum" where
  "js_sub a b = js_add a (js_neg b)"

text \<open>The sign of a number that is not NaN: is it below zero?\<close>

fun js_negative :: "jsnum \<Rightarrow> bool" where
  "js_negative (Fin a) = (a < 0)"
| "js_negative NegInf = True"
| "js_negative _ = False"

definition js_signed_inf :: "bool \<Rightarrow> jsnum" where
  "js_signed_inf neg = (if neg then NegInf else PosInf)"

fun js_mul :: "jsnum \<Rightarrow> jsnum \<Rightarrow> jsnum" where
  "js_mul (Fin a) (Fin b) = Fin (a * b)"
| "js_mul NaN _ = NaN"
| "js_mul _ NaN = NaN"
| "js_mul (Fin a) b = (if a = 0 then NaN else js_signed_inf ((a < 0) \<noteq> js_negative b))"
| "js_mul a (Fin b) = (if b = 0 then NaN else js_signed_inf (js_negative a \<noteq> (b < 0)))"
| "js_mul a b = js_signed_inf (js_negative a \<noteq> js_negative b)"

fun js_div :: "jsnum \<Rightarrow> jsnum \<Rightarrow> jsnum" where
  "js_div (Fin a) (Fin b) =
     (if b \<noteq> 0 then Fin (a / b)
      else if a = 0 then NaN
      else js_signed_inf (a < 0))"
| "js_div NaN _ = NaN"
| "js_div _ NaN = NaN"
| "js_div (Fin _) _ = Fin 0"
| "js_div a (Fin b) = js_signed_inf (js_negative a \<noteq> (b < 0))"
| "js_div _ _ = NaN"

text \<open>Comparisons: every comparison with NaN is false.\<close>

fun js_lt :: "jsnum \<Rightarrow> jsnum \<Rightarrow> bool" where
  "js_lt (Fin a) (Fin b) = (a < b)"
| "js_lt NaN _ = False"
| "js_lt _ NaN = False"
| "js_lt NegInf b = (b \<noteq> NegInf)"
| "js_lt a PosInf = (a \<noteq> PosInf)"
| "js_lt _ _ = False"

definition js_le :: "jsnum \<Rightarrow> jsnum \<Rightarrow> bool" where
  "js_le a b = (a \<noteq> NaN \<and> b \<noteq> NaN \<and> (a = b \<or> js_lt a b))"

text \<open>Truthiness of a number, as \<open>||\<close> and \<open>!\<close> see it: zero and NaN are falsy.\<close>

definition js_truthy :: "jsnum \<Rightarrow> bool" where
  "js_truthy a = (a \<noteq> Fin 0 \<and> a \<noteq> NaN)"

text \<open>
  \<open>Math.max(...xs)\<close> and \<open>Math.min(...xs)\<close>: NaN if any argument is NaN,
  \<open>-Infinity\<close> (respectively \<open>Infinity\<close>) on no arguments.
\<close>

definition js_max2 :: "jsnum \<Rightarrow> jsnum \<Rightarrow> jsnum" where
  "js_max2 a b = (if a = NaN \<or> b = NaN then NaN else if js_lt a b then b else a)"

definition js_min2 :: "jsnum \<Rightarrow> jsnum \<Rightarrow> jsnum" where
  "js_min2 a b = (if a = NaN \<or> b = NaN then NaN else if js_lt b a then b else a)"

definition Math_max :: "jsnum list \<Rightarrow> jsnum" where
  "Math_max xs = foldl js_max2 NegInf xs"

definition Math_min :: "jsnum list \<Rightarrow> jsnum" where
  "Math_min xs = foldl js_min2 PosInf xs"

text \<open>\<open>xs.reduce((acc, value) => acc + value, 0)\<close>\<close>

definition js_sum :: "jsnum list \<Rightarrow> jsnum" where
  "js_sum xs = foldl js_add (Fin 0) xs"

text \<open>An array length as a number.\<close>

definition js_length :: "'a list \<Rightarrow> jsnum" where
  "js_length xs = Fin (real (length xs))"

section \<open>JavaScript arrays\<close>

text \<open>
  \<open>xs.slice(start, end)\<close> with integer arguments: a negative argument counts from
  the end, and both are clamped to the array.
\<close>

definition js_slice_index :: "nat \<Rightarrow> int \<Rightarrow> nat" where
  "js_slice_index len k = (if k < 0 then nat (max (int len + k) 0) else min (nat k) len)"

definition js_slice :: "int \<Rightarrow> int \<Rightarrow> 'a list \<Rightarrow> 'a list" where
  "js_slice start end xs =
     (let k = js_slice_index (length xs) start;
          final = js_slice_index (length xs) end
      in take (final - k) (drop k xs))"

text \<open>\<open>xs.findIndex(p)\<close>: the first index whose element satisfies \<open>p\<close>, or \<open>-1\<close>.\<close>

fun findIndex_from :: "int \<Rightarrow> ('a \<Rightarrow> bool) \<Rightarrow> 'a list \<Rightarrow> int" where
  "findIndex_from i p [] = - 1"
| "findIndex_from i p (x # xs) = (if p x then i else findIndex_from (i + 1) p xs)"

definition findIndex :: "('a \<Rightarrow> bool) \<Rightarrow> 'a list \<Rightarrow> int" where
  "findIndex p xs = findIndex_from 0 p xs"

text \<open>\<open>xs[i]\<close>: \<open>undefined\<close> (here \<open>None\<close>) out of range.\<close>

definition js_at :: "'a list \<Rightarrow> int \<Rightarrow> 'a option" where
  "js_at xs i = (if 0 \<le> i \<and> i < int (length xs) then Some (xs ! nat i) else None)"

section \<open>Moving average\<close>

text \<open>
  \<^verbatim>\<open>
  const calculateMovingAverage = (values, window) => {
    if (!values || values.length === 0) { return []; }
    const averages = values.map((_, index) => {
      const start = Math.max(0, index - window + 1);
      const slice = values.slice(start, index + 1);
      const total = slice.reduce((sum, value) => sum + value, 0);
      return total / slice.length;
    });
    return averages;
  };
  \<close>
  \<open>movingAverageAt\<close> is the callback of \<open>map\<close>. The values are an array (the one
  caller passes one) and the window is an integer (the component offers 3, 5, 7 and 14).
\<close>

definition movingAverageAt :: "jsnum list \<Rightarrow> int \<Rightarrow> nat \<Rightarrow> jsnum" where
  "movingAverageAt values window index =
     (let start = max 0 (int index - window + 1);
          slice = js_slice start (int index + 1) values;
          total = js_sum slice
      in js_div total (js_length slice))"

definition calculateMovingAverage :: "jsnum list \<Rightarrow> int \<Rightarrow> jsnum list" where
  "calculateMovingAverage values window =
     (if length values = 0 then []
      else map (movingAverageAt values window) [0..<length values])"

text \<open>\<open>Math.round\<close>: to the nearest integer, a half upwards.\<close>

fun Math_round :: "jsnum \<Rightarrow> jsnum" where
  "Math_round (Fin a) = Fin (of_int \<lfloor>a + 1 / 2\<rfloor>)"
| "Math_round a = a"

text \<open>
  \<open>[...xs].sort(cmp)\<close>: a stable sort, modelled as a stable insertion sort. An element
  stays before another unless the comparator is above zero; a comparator result of NaN
  counts as zero. Every stable sort gives this order when the comparator is consistent,
  as \<open>byDate\<close> is on entries whose dates all parse. When a date does not parse the
  comparator is inconsistent and the language leaves the order to the implementation:
  \<open>js_sort\<close> then gives one permutation of the entries, which need not be the one a
  given engine produces. What is proved about the order of the stored series is
  therefore proved for series whose dates all parse.
\<close>

fun js_insort :: "('a \<Rightarrow> 'a \<Rightarrow> jsnum) \<Rightarrow> 'a \<Rightarrow> 'a list \<Rightarrow> 'a list" where
  "js_insort cmp x [] = [x]"
| "js_insort cmp x (y # ys) =
     (if js_lt (Fin 0) (cmp x y) then y # js_insort cmp x ys else x # y # ys)"

definition js_sort :: "('a \<Rightarrow> 'a \<Rightarrow> jsnum) \<Rightarrow> 'a list \<Rightarrow> 'a list" where
  "js_sort cmp xs = foldr (js_insort cmp) xs []"

section \<open>The host\<close>

text \<open>
  The components read dates through the language's \<open>Date\<close>: \<open>getTime h s\<close> is
  \<open>new Date(s).getTime()\<close> in milliseconds (NaN when \<open>s\<close> is not a date), and
  \<open>formatDateLabel h s\<close> is the components' \<open>formatDateLabel(s)\<close>, the
  \<open>dd/mm/yyyy\<close> rendering of \<open>s\<close> in the host's time zone. Both are parameters of
  the model. The payload's elements are converted by \<open>Number\<close>, a parameter
  \<open>toNumber\<close> of the functions that read a payload.
\<close>

record host =
  getTime :: "string \<Rightarrow> jsnum"
  formatDateLabel :: "string \<Rightarrow> string"

text \<open>
  A host in the UTC time zone, on date-only ISO strings \<open>YYYY-MM-DD\<close>: the days since
  1970-01-01 of the proleptic Gregorian calendar, in milliseconds. Every other string is
  not a date for this host.
\<close>

definition digit_value :: "char \<Rightarrow> nat option" where
  "digit_value c =
     (let n = (of_char c :: nat) in if 48 \<le> n \<and> n \<le> 57 then Some (n - 48) else None)"

fun digits_value :: "nat \<Rightarrow> string \<Rightarrow> nat option" where
  "digits_value acc [] = Some acc"
| "digits_value acc (c # cs) =
     (case digit_value c of None \<Rightarrow> None | Some d \<Rightarrow> digits_value (10 * acc + d) cs)"

definition leap_year :: "nat \<Rightarrow> bool" where
  "leap_year y = (y mod 4 = 0 \<and> (y mod 100 \<noteq> 0 \<or> y mod 400 = 0))"

definition days_in_month :: "nat \<Rightarrow> nat \<Rightarrow> nat" where
  "days_in_month y m =
     (if m = 2 then (if leap_year y then 29 else 28)
      else if m = 4 \<or> m = 6 \<or> m = 9 \<or> m = 11 then 30 else 31)"

definition iso_date :: "string \<Rightarrow> (nat \<times> nat \<times> nat) option" where
  "iso_date s =
     (if length s = 10 \<and> s ! 4 = CHR ''-'' \<and> s ! 7 = CHR ''-'' then
        (case (digits_value 0 (take 4 s), digits_value 0 (take 2 (drop 5 s)),
               digits_value 0 (drop 8 s)) of
           (Some y, Some m, Some d) \<Rightarrow>
             if 1 \<le> m \<and> m \<le> 12 \<and> 1 \<le> d \<and> d \<le> days_in_month y m then Some (y, m, d)
             else None
         | _ \<Rightarrow> None)
      else None)"

definition days_from_civil :: "nat \<Rightarrow> nat \<Rightarrow> nat \<Rightarrow> int" where
  "days_from_civil y m d =
     (let y' = int y - (if m \<le> 2 then 1 else 0);
          era = y' div 400;
          yoe = y' - era * 400;
          doy = (153 * (int m + (if 2 < m then - 3 else 9)) + 2) div 5 + int d - 1;
          doe = yoe * 365 + yoe div 4 - yoe div 100 + doy
      in era * 146097 + doe - 719468)"

definition utc_getTime :: "string \<Rightarrow> jsnum" where
  "utc_getTime s =
     (case iso_date s of
        None \<Rightarrow> NaN
      | Some (y, m, d) \<Rightarrow> Fin (of_int (days_from_civil y m d * 86400000)))"

definition utc_formatDateLabel :: "string \<Rightarrow> string" where
  "utc_formatDateLabel s =
     (case iso_date s of
        None \<Rightarrow> ''NaN/NaN/NaN''
      | Some _ \<Rightarrow> drop 8 s @ ''/'' @ take 2 (drop 5 s) @ ''/'' @ take 4 s)"

definition utc_host :: host where
  "utc_host = \<lparr>getTime = utc_getTime, formatDateLabel = utc_formatDateLabel\<rparr>"

section \<open>Data\<close>

text \<open>
  The points of a series are objects \<open>{date, buy}\<close>, \<open>{date, buy, sell}\<close> or
  \<open>{date, spread}\<close>; a chart is \<open>{labels, datasets: [{data, ...}]}\<close>, of which the
  labels and the numbers are kept (the return chart has a second series,
  \<open>absoluteData\<close>). Each component holds \<open>chartData\<close>, \<open>stats\<close> and
  \<open>error\<close>, each \<open>null\<close> (\<open>None\<close>) or set, and a \<open>loading\<close> flag.
\<close>

record dated =
  date :: string

record buy_entry = dated +
  buy :: jsnum

record entry = buy_entry +
  sell :: jsnum

record spread_entry = dated +
  spread :: jsnum

record chart =
  labels :: "string list"
  data :: "jsnum list"

record return_chart = chart +
  absoluteData :: "jsnum list"

record ('c, 's) view =
  chartData :: "'c option"
  stats :: "'s option"
  error :: "string option"
  loading :: bool

text \<open>
  The response of \<open>/api/analytics/trends\<close>: the request is rejected, or it resolves
  with \<open>response.data?.trends\<close> absent or an object whose three arrays may each be
  absent.
\<close>

record 'r trends =
  dates :: "string list option"
  buy_prices :: "'r list option"
  sell_prices :: "'r list option"

datatype 'r response = Rejected | Resolved "'r trends option"

text \<open>
  An expression completes normally with a value or throws: reading an index of an array
  that is \<open>undefined\<close> is a TypeError, which the \<open>catch\<close> of the caller handles.
\<close>

datatype 'a completion = Normal 'a | Throw

fun collect :: "'a completion list \<Rightarrow> 'a list completion" where
  "collect [] = Normal []"
| "collect (Throw # _) = Throw"
| "collect (Normal x # cs) = (case collect cs of Throw \<Rightarrow> Throw | Normal xs \<Rightarrow> Normal (x # xs))"

text \<open>\<open>xs.map((x, idx) => f(x, idx))\<close>, where \<open>f\<close> may throw.\<close>

definition map_indexed :: "('a \<Rightarrow> nat \<Rightarrow> 'b completion) \<Rightarrow> 'a list \<Rightarrow> 'b list completion" where
  "map_indexed f xs = collect (map (\<lambda>idx. f (xs ! idx) idx) [0..<length xs])"

text \<open>\<open>xs.filter(Boolean)\<close> on an array of objects and \<open>null\<close>s.\<close>

definition filter_Boolean :: "'a option list \<Rightarrow> 'a list" where
  "filter_Boolean xs = map the (filter (\<lambda>x. x \<noteq> None) xs)"

text \<open>\<open>Number(xs[idx])\<close>: an index out of range reads \<open>undefined\<close>, which is NaN.\<close>

definition Number_at :: "('r \<Rightarrow> jsnum) \<Rightarrow> 'r list \<Rightarrow> nat \<Rightarrow> jsnum" where
  "Number_at toNumber xs idx =
     (case js_at xs (int idx) of None \<Rightarrow> NaN | Some r \<Rightarrow> toNumber r)"

section \<open>Daily change\<close>

record change_stats =
  latestChange :: "jsnum option"
  maxGain :: jsnum
  maxDrop :: jsnum
  averageChange :: jsnum

text \<open>
  The entries of \<open>fetchChangeData\<close>, whose callback is \<open>changeEntry\<close>:
  \<^verbatim>\<open>
  trends.dates.map((date, idx) => {
      const buy = Number(trends.buy_prices[idx]);
      if (!Number.isFinite(buy)) { return null; }
      return { date, buy };
    }).filter(Boolean)
  \<close>
\<close>

definition changeEntry ::
  "('r \<Rightarrow> jsnum) \<Rightarrow> 'r trends \<Rightarrow> string \<Rightarrow> nat \<Rightarrow> buy_entry option completion" where
  "changeEntry toNumber trends d idx =
     (case buy_prices trends of
        None \<Rightarrow> Throw
      | Some bs \<Rightarrow>
          (let buy = Number_at toNumber bs idx
           in if \<not> js_isFinite buy then Normal None
              else Normal (Some \<lparr>date = d, buy = buy\<rparr>)))"

text \<open>
  The loop over the entries, with the two arrays it fills as accumulator:
  \<^verbatim>\<open>
  for (let idx = 1; idx < entries.length; idx += 1) {
    const current = entries[idx];
    const previous = entries[idx - 1];
    changes.push(current.buy - previous.buy);
    changeLabels.push(formatDateLabel(current.date));
  }
  \<close>
\<close>

function changesLoop ::
  "host \<Rightarrow> buy_entry list \<Rightarrow> nat \<Rightarrow> jsnum list \<times> string list \<Rightarrow> jsnum list \<times> string list" where
  "changesLoop h entries idx (changes, changeLabels) =
     (if idx < length entries then
        (let current = entries ! idx;
             previous = entries ! (idx - 1)
         in changesLoop h entries (idx + 1)
              (changes @ [js_sub (buy current) (buy previous)],
               changeLabels @ [formatDateLabel h (date current)]))
      else (changes, changeLabels))"
  by pat_completeness auto
termination
  by (relation "measure (\<lambda>(h, entries, idx, acc). length entries - idx)") auto

declare changesLoop.simps [simp del]

text \<open>\<open>x || null\<close> on a number or \<open>undefined\<close>, as in \<open>changes[changes.length - 1] || null\<close>.\<close>

definition or_null :: "jsnum option \<Rightarrow> jsnum option" where
  "or_null x = (case x of None \<Rightarrow> None | Some a \<Rightarrow> if js_truthy a then Some a else None)"

text \<open>
  \<open>fetchChangeData\<close> from the response on: \<open>setLoading(true); setError(null)\<close>
  before the request, the \<open>try\<close> block with its early returns, the \<open>catch\<close>
  (\<open>failed\<close>) and \<open>setLoading(false)\<close> in the \<open>finally\<close>.
\<close>

definition fetchChangeData ::
  "host \<Rightarrow> ('r \<Rightarrow> jsnum) \<Rightarrow> 'r response \<Rightarrow> (chart, change_stats) view \<Rightarrow> (chart, change_stats) view" where
  "fetchChangeData h toNumber response st =
     (let st0 = st\<lparr>loading := True, error := None\<rparr>;
          failed = st0\<lparr>error := Some ''Unable to load daily change data right now.'',
                       chartData := None, stats := None, loading := False\<rparr>;
          insufficient = st0\<lparr>chartData := None, stats := None, loading := False\<rparr>
      in case response of
           Rejected \<Rightarrow> failed
         | Resolved None \<Rightarrow> insufficient
         | Resolved (Some trends) \<Rightarrow>
             (case dates trends of
                None \<Rightarrow> insufficient
              | Some ds \<Rightarrow>
                  if length ds < 2 then insufficient
                  else
                    (case map_indexed (changeEntry toNumber trends) ds of
                       Throw \<Rightarrow> failed
                     | Normal es \<Rightarrow>
                         (let entries = filter_Boolean es
                          in if length entries < 2 then insufficient
                             else
                               (let (changes, changeLabels) = changesLoop h entries 1 ([], []);
                                    latestChange = or_null (js_at changes (int (length changes) - 1));
                                    maxGain = Math_max changes;
                                    maxDrop = Math_min changes;
                                    averageChange = js_div (js_sum changes) (js_length changes)
                                in st0\<lparr>stats := Some \<lparr>latestChange = latestChange, maxGain = maxGain,
                                         maxDrop = maxDrop, averageChange = averageChange\<rparr>,
                                       chartData := Some \<lparr>labels = changeLabels,
                                         data = map (\<lambda>v. js_div v (Fin 1000000)) changes\<rparr>,
                                       loading := False\<rparr>)))))"

section \<open>Spread trend\<close>

record spread_stats =
  currentSpread :: "jsnum option"
  maxSpread :: jsnum
  minSpread :: jsnum
  averageSpread :: jsnum
  latestDate :: string

text \<open>
  The entries of \<open>fetchSpreadData\<close>, whose callback is \<open>combinedEntry\<close>:
  \<^verbatim>\<open>
  trends.dates.map((date, idx) => {
      const buy = Number(trends.buy_prices[idx]);
      const sell = Number(trends.sell_prices[idx]);
      if (!Number.isFinite(buy) || !Number.isFinite(sell)) { return null; }
      return { date, spread: sell - buy };
    }).filter(Boolean)
  \<close>
\<close>

definition combinedEntry ::
  "('r \<Rightarrow> jsnum) \<Rightarrow> 'r trends \<Rightarrow> string \<Rightarrow> nat \<Rightarrow> spread_entry option completion" where
  "combinedEntry toNumber trends d idx =
     (case buy_prices trends of
        None \<Rightarrow> Throw
      | Some bs \<Rightarrow>
          (case sell_prices trends of
             None \<Rightarrow> Throw
           | Some ss \<Rightarrow>
               (let buy = Number_at toNumber bs idx;
                    sell = Number_at toNumber ss idx
                in if \<not> js_isFinite buy \<or> \<not> js_isFinite sell then Normal None
                   else Normal (Some \<lparr>date = d, spread = js_sub sell buy\<rparr>))))"

text \<open>
  \<open>fetchSpreadData\<close> from the response on, in the same shape; the last spread is read
  as \<open>spreads[spreads.length - 1] ?? null\<close>, which keeps every number.
\<close>

definition fetchSpreadData ::
  "host \<Rightarrow> ('r \<Rightarrow> jsnum) \<Rightarrow> 'r response \<Rightarrow> (chart, spread_stats) view \<Rightarrow> (chart, spread_stats) view" where
  "fetchSpreadData h toNumber response st =
     (let st0 = st\<lparr>loading := True, error := None\<rparr>;
          failed = st0\<lparr>error := Some ''Unable to load spread trend data right now.'',
                       chartData := None, stats := None, loading := False\<rparr>;
          empty = st0\<lparr>chartData := None, stats := None, loading := False\<rparr>
      in case response of
           Rejected \<Rightarrow> failed
         | Resolved None \<Rightarrow> empty
         | Resolved (Some trends) \<Rightarrow>
             (case dates trends of
                None \<Rightarrow> empty
              | Some ds \<Rightarrow>
                  if length ds = 0 then empty
                  else
                    (case map_indexed (combinedEntry toNumber trends) ds of
                       Throw \<Rightarrow> failed
                     | Normal cs \<Rightarrow>
                         (let combined = filter_Boolean cs
                          in if length combined = 0 then empty
                             else
                               (let spreads = map spread combined;
                                    labels = map (\<lambda>entry. formatDateLabel h (date entry)) combined;
                                    currentSpread = js_at spreads (int (length spreads) - 1);
                                    maxSpread = Math_max spreads;
                                    minSpread = Math_min spreads;
                                    averageSpread = js_div (js_sum spreads) (js_length spreads)
                                in st0\<lparr>stats := Some \<lparr>currentSpread = currentSpread,
                                         maxSpread = maxSpread, minSpread = minSpread,
                                         averageSpread = averageSpread,
                                         latestDate = date (combined ! (length combined - 1))\<rparr>,
                                       chartData := Some \<lparr>labels = labels,
                                         data = map (\<lambda>v. js_div v (Fin 1000000)) spreads\<rparr>,
                                       loading := False\<rparr>)))))"

section \<open>Cumulative return\<close>

record return_stats =
  latestReturn :: jsnum
  entryCost :: jsnum
  exitProceeds :: jsnum
  absoluteChange :: jsnum
  holdingDays :: jsnum

record return_view = "(return_chart, return_stats) view" +
  entries :: "entry list"
  buyDate :: string
  sellDate :: string
  activePresetDays :: "jsnum option"

text \<open>\<open>(a, b) => new Date(a.date) - new Date(b.date)\<close>\<close>

definition byDate :: "host \<Rightarrow> 'a dated_scheme \<Rightarrow> 'a dated_scheme \<Rightarrow> jsnum" where
  "byDate h a b = js_sub (getTime h (date a)) (getTime h (date b))"

text \<open>
  \<open>fetchData\<close> of the cumulative return chart, from the response on. The entries are
  \<^verbatim>\<open>
  trends?.dates?.map((date, idx) => {
      const buy = Number(trends.buy_prices[idx]);
      const sell = Number(trends.sell_prices?.[idx]);
      if (!Number.isFinite(buy) || !Number.isFinite(sell)) { return null; }
      return { date, buy, sell };
    }).filter(Boolean)
  \<close>
  and are sorted by date before they are stored. \<open>processedEntry\<close> is the callback of
  \<open>map\<close>, and \<open>keepDate\<close> the updater
  \<open>(previous) => previous && sortedEntries.some((entry) => entry.date === previous) ? previous : defaultDate\<close>
  of the two dates.
\<close>

definition processedEntry ::
  "('r \<Rightarrow> jsnum) \<Rightarrow> 'r trends \<Rightarrow> string \<Rightarrow> nat \<Rightarrow> entry option completion" where
  "processedEntry toNumber trends d idx =
     (case buy_prices trends of
        None \<Rightarrow> Throw
      | Some bs \<Rightarrow>
          (let buy = Number_at toNumber bs idx;
               sell = (case sell_prices trends of None \<Rightarrow> NaN | Some ss \<Rightarrow> Number_at toNumber ss idx)
           in if \<not> js_isFinite buy \<or> \<not> js_isFinite sell then Normal None
              else Normal (Some \<lparr>date = d, buy = buy, sell = sell\<rparr>)))"

definition processedEntries ::
  "('r \<Rightarrow> jsnum) \<Rightarrow> 'r trends option \<Rightarrow> entry list option completion" where
  "processedEntries toNumber trends =
     (case trends of
        None \<Rightarrow> Normal None
      | Some t \<Rightarrow>
          (case dates t of
             None \<Rightarrow> Normal None
           | Some ds \<Rightarrow>
               (case map_indexed (processedEntry toNumber t) ds of
                  Throw \<Rightarrow> Throw
                | Normal es \<Rightarrow> Normal (Some (filter_Boolean es)))))"

definition keepDate :: "entry list \<Rightarrow> string \<Rightarrow> string \<Rightarrow> string" where
  "keepDate sortedEntries defaultDate previous =
     (if previous \<noteq> [] \<and> list_ex (\<lambda>entry. date entry = previous) sortedEntries then previous
      else defaultDate)"

definition fetchData :: "host \<Rightarrow> ('r \<Rightarrow> jsnum) \<Rightarrow> 'r response \<Rightarrow> return_view \<Rightarrow> return_view" where
  "fetchData h toNumber response st =
     (let st0 = st\<lparr>loading := True, error := None, entries := [], chartData := None,
                   stats := None, activePresetDays := None\<rparr>;
          failed = st0\<lparr>error := Some ''Unable to load return data right now.'', loading := False\<rparr>
      in case response of
           Rejected \<Rightarrow> failed
         | Resolved trends \<Rightarrow>
             (case processedEntries toNumber trends of
                Throw \<Rightarrow> failed
              | Normal None \<Rightarrow>
                  st0\<lparr>error := Some ''No data available for the selected gold type.'', loading := False\<rparr>
              | Normal (Some es) \<Rightarrow>
                  if length es = 0 then
                    st0\<lparr>error := Some ''No data available for the selected gold type.'', loading := False\<rparr>
                  else
                    (let sortedEntries = js_sort (byDate h) es;
                         defaultBuyDate = date (sortedEntries ! 0);
                         defaultSellDate = date (sortedEntries ! (length sortedEntries - 1))
                     in st0\<lparr>entries := sortedEntries,
                            buyDate := keepDate sortedEntries defaultBuyDate (buyDate st0),
                            sellDate := keepDate sortedEntries defaultSellDate (sellDate st0),
                            loading := False\<rparr>)))"

text \<open>
  The effect that follows every change of \<open>entries\<close>, \<open>buyDate\<close> or \<open>sellDate\<close>:
  it returns without a change when there is nothing to compute or a date is not in the
  series, and otherwise sets \<open>chartData\<close>, \<open>stats\<close> and \<open>error\<close>.
\<close>

definition returnEffect :: "host \<Rightarrow> return_view \<Rightarrow> return_view" where
  "returnEffect h st =
     (if length (entries st) = 0 \<or> buyDate st = [] \<or> sellDate st = [] then st
      else
        (let sorted = js_sort (byDate h) (entries st);
             buyIndex = findIndex (\<lambda>entry. date entry = buyDate st) sorted;
             sellIndex = findIndex (\<lambda>entry. date entry = sellDate st) sorted
         in if buyIndex = - 1 \<or> sellIndex = - 1 then st
            else if sellIndex < buyIndex then
              st\<lparr>chartData := None, stats := None,
                 error := Some ''Sell date must be the same as or after the buy date.''\<rparr>
            else
              (let windowEntries = js_slice buyIndex (sellIndex + 1) sorted
               in if length windowEntries = 0 then
                    st\<lparr>chartData := None, stats := None,
                       error := Some ''No data in the selected window.''\<rparr>
                  else
                    (let entryCost = sell (windowEntries ! 0)
                     in if \<not> js_isFinite entryCost \<or> js_le entryCost (Fin 0) then
                          st\<lparr>chartData := None, stats := None,
                             error := Some ''Sell price unavailable for the selected start date.''\<rparr>
                        else
                          (let labels = map (\<lambda>entry. formatDateLabel h (date entry)) windowEntries;
                               returns = map (\<lambda>entry. js_mul (js_div (js_sub (buy entry) entryCost) entryCost) (Fin 100)) windowEntries;
                               absoluteReturns = map (\<lambda>entry. js_sub (buy entry) entryCost) windowEntries;
                               exitProceeds = buy (windowEntries ! (length windowEntries - 1));
                               absoluteChange = js_sub exitProceeds entryCost;
                               holdingDays = Math_max [Fin 0,
                                 Math_round (js_div (js_sub (getTime h (sellDate st)) (getTime h (buyDate st)))
                                   (Fin (1000 * 60 * 60 * 24)))]
                           in st\<lparr>error := None,
                                 stats := Some \<lparr>latestReturn = returns ! (length returns - 1),
                                   entryCost = entryCost, exitProceeds = exitProceeds,
                                   absoluteChange = absoluteChange, holdingDays = holdingDays\<rparr>,
                                 chartData := Some \<lparr>labels = labels, data = returns,
                                   absoluteData = absoluteReturns\<rparr>\<rparr>)))))"

section \<open>Properties of the moving average\<close>

lemma js_sum_Fin_aux: "foldl js_add (Fin a) (map Fin rs) = Fin (a + sum_list rs)"
  by (induction rs arbitrary: a) (simp_all add: add.assoc)

lemma js_sum_Fin: "js_sum (map Fin rs) = Fin (sum_list rs)"
  by (simp add: js_sum_def js_sum_Fin_aux)

lemma js_slice_nat:
  "js_slice (int s) (int e) xs = take (min e (length xs) - min s (length xs)) (drop (min s (length xs)) xs)"
  by (simp add: js_slice_def js_slice_index_def Let_def)

lemma sum_list_window:
  assumes "lo \<le> i" "i < length rs"
  shows "sum_list (take (Suc i - lo) (drop lo rs)) = (\<Sum>k = lo..i. rs ! k)"
proof -
  have len: "length (take (Suc i - lo) (drop lo rs)) = Suc i - lo"
    using assms by simp
  have "sum_list (take (Suc i - lo) (drop lo rs)) = (\<Sum>j = 0..<Suc i - lo. rs ! (lo + j))"
    unfolding sum_list_sum_nth len using assms by simp
  also have "\<dots> = (\<Sum>k = lo..<Suc i. rs ! k)"
    using assms sum.shift_bounds_nat_ivl[of "\<lambda>k. rs ! k" 0 lo "Suc i - lo"] by (simp add: add.commute)
  finally show ?thesis by (simp add: atLeastLessThanSuc_atLeastAtMost)
qed

lemma movingAverageAt_Fin:
  assumes "1 \<le> w" "i < length rs"
  shows "movingAverageAt (map Fin rs) w i =
           Fin ((\<Sum>k = nat (max 0 (int i - w + 1))..i. rs ! k) / real (Suc i - nat (max 0 (int i - w + 1))))"
proof -
  define lo where "lo = nat (max 0 (int i - w + 1))"
  have lo: "lo \<le> i" "max 0 (int i - w + 1) = int lo" using assms by (auto simp: lo_def)
  have sl: "js_slice (int lo) (int i + 1) (map Fin rs) = map Fin (take (Suc i - lo) (drop lo rs))"
    using js_slice_nat[of lo "Suc i" "map Fin rs"] lo assms
    by (simp add: min_def take_map drop_map add.commute)
  have len: "length (take (Suc i - lo) (drop lo rs)) = Suc i - lo"
    using lo assms by simp
  show ?thesis
    unfolding movingAverageAt_def Let_def lo(2) sl js_sum_Fin js_length_def lo_def[symmetric]
    using lo assms sum_list_window[of lo i rs]
    by (simp add: len del: length_take)
qed


lemma js_add_zero_left: "js_add (Fin 0) x = x"
  by (cases x) simp_all

lemma js_div_one: "js_div x (Fin 1) = x"
  by (cases x) (simp_all add: js_signed_inf_def)

lemma movingAverageAt_first: "1 \<le> w \<Longrightarrow> v \<noteq> [] \<Longrightarrow> movingAverageAt v w 0 = v ! 0"
  by (cases v) (simp_all add: movingAverageAt_def js_slice_def js_slice_index_def js_sum_def js_length_def
       js_add_zero_left js_div_one)

lemma js_slice_prefix:
  assumes "0 \<le> s" "i < length v"
  shows "js_slice s (int i + 1) v = drop (nat s) (take (Suc i) v)"
proof -
  have "js_slice (int (nat s)) (int (Suc i)) v = drop (nat s) (take (Suc i) v)"
    unfolding js_slice_nat using assms by (cases "nat s \<le> length v") (simp_all add: drop_take min_def)
  then show ?thesis using assms by (simp add: add.commute)
qed

lemma movingAverageAt_prefix:
  assumes "i < length v" "i < length v'" "take (Suc i) v' = take (Suc i) v"
  shows "movingAverageAt v' w i = movingAverageAt v w i"
  using assms by (simp add: movingAverageAt_def js_slice_prefix)

lemma nth_calculateMovingAverage:
  "i < length v \<Longrightarrow> calculateMovingAverage v w ! i = movingAverageAt v w i"
  by (auto simp: calculateMovingAverage_def)

lemma length_calculateMovingAverage: "length (calculateMovingAverage v w) = length v"
  by (simp add: calculateMovingAverage_def)

text \<open>
  C5. For every window \<open>w \<ge> 1\<close> the moving average has the length of its input; on
  finite numbers its value at index \<open>i\<close> is the arithmetic mean of the inputs at
  \<open>max(0, i - w + 1) .. i\<close>; its first value is the first input; its value at \<open>i\<close> is
  the same for every input with the same first \<open>i + 1\<close> elements (no lookahead); and
  \<open>movingAverage([10, 20, 30, 40], 2) = [10, 15, 25, 35]\<close>.
\<close>

theorem movingAverage_is_trailing_mean:
  "(1 \<le> w \<longrightarrow>
      length (calculateMovingAverage v w) = length v
    \<and> (\<forall>rs. v = map Fin rs \<longrightarrow> (\<forall>i<length rs. calculateMovingAverage v w ! i =
          Fin ((\<Sum>k = nat (max 0 (int i - w + 1))..i. rs ! k) / real (Suc i - nat (max 0 (int i - w + 1))))))
    \<and> (v \<noteq> [] \<longrightarrow> calculateMovingAverage v w ! 0 = v ! 0)
    \<and> (\<forall>v' i. i < length v \<and> i < length v' \<and> take (Suc i) v' = take (Suc i) v \<longrightarrow>
          calculateMovingAverage v' w ! i = calculateMovingAverage v w ! i))
   \<and> calculateMovingAverage [Fin 10, Fin 20, Fin 30, Fin 40] 2 = [Fin 10, Fin 15, Fin 25, Fin 35]"
proof (intro conjI impI allI)
  show "length (calculateMovingAverage v w) = length v"
    by (rule length_calculateMovingAverage)
next
  fix rs i assume "1 \<le> w" "v = map Fin rs" "i < length rs"
  then show "calculateMovingAverage v w ! i =
      Fin ((\<Sum>k = nat (max 0 (int i - w + 1))..i. rs ! k) / real (Suc i - nat (max 0 (int i - w + 1))))"
    by (simp add: nth_calculateMovingAverage movingAverageAt_Fin)
next
  assume "1 \<le> w" "v \<noteq> []"
  then show "calculateMovingAverage v w ! 0 = v ! 0"
    by (simp add: nth_calculateMovingAverage movingAverageAt_first)
next
  fix v' i assume "i < length v \<and> i < length v' \<and> take (Suc i) v' = take (Suc i) v"
  then show "calculateMovingAverage v' w ! i = calculateMovingAverage v w ! i"
    by (simp add: nth_calculateMovingAverage movingAverageAt_prefix)
next
  show "calculateMovingAverage [Fin 10, Fin 20, Fin 30, Fin 40] 2 = [Fin 10, Fin 15, Fin 25, Fin 35]"
    by (simp add: calculateMovingAverage_def movingAverageAt_def js_slice_def js_slice_index_def
        js_sum_def js_length_def upt_conv_Cons)
qed

theorem movingAverage_is_trailing_mean_witness:
  "(1::int) \<le> 3
   \<and> length (calculateMovingAverage [Fin 3, Fin 6, Fin 9, Fin 30] 3) = 4
   \<and> calculateMovingAverage [Fin 3, Fin 6, Fin 9, Fin 30] 3 ! 3 = Fin 15
   \<and> calculateMovingAverage [Fin 3, Fin 6, Fin 9, Fin 30] 3 ! 0 = Fin 3
   \<and> calculateMovingAverage [Fin 3, Fin 6, Fin 0] 3 ! 1 = calculateMovingAverage [Fin 3, Fin 6, Fin 9, Fin 30] 3 ! 1"
proof -
  let ?v = "[Fin 3, Fin 6, Fin 9, Fin 30]"
  have w: "(1::int) \<le> 3" by simp
  note t = movingAverage_is_trailing_mean [of 3 ?v, THEN conjunct1, rule_format, OF w]
  have len: "length (calculateMovingAverage ?v 3) = length ?v"
    using t by blast
  have mean: "calculateMovingAverage ?v 3 ! 3 =
      Fin ((\<Sum>k = nat (max 0 (int 3 - 3 + 1))..3. [3, 6, 9, 30] ! k) / real (Suc 3 - nat (max 0 (int 3 - 3 + 1))))"
    using t [THEN conjunct2, THEN conjunct1, rule_format, of "[3, 6, 9, 30]" 3] by simp
  have first: "calculateMovingAverage ?v 3 ! 0 = ?v ! 0"
    using t [THEN conjunct2, THEN conjunct2, THEN conjunct1] by simp
  have causal: "calculateMovingAverage [Fin 3, Fin 6, Fin 0] 3 ! 1 = calculateMovingAverage ?v 3 ! 1"
    using t [THEN conjunct2, THEN conjunct2, THEN conjunct2, rule_format, of 1 "[Fin 3, Fin 6, Fin 0]"] by simp
  have s: "(\<Sum>k = Suc 0..3. [3, 6, 9, 30::real] ! k) = 45"
    by (simp add: numeral_3_eq_3 sum.atLeast_Suc_atMost)
  show ?thesis using w len mean first causal s by simp
qed

section \<open>Properties of the cumulative return\<close>

lemma findIndex_from_cases:
  "0 \<le> i \<Longrightarrow>
     (findIndex_from i p xs = - 1 \<and> (\<forall>x\<in>set xs. \<not> p x))
   \<or> (\<exists>k<length xs. findIndex_from i p xs = i + int k \<and> p (xs ! k) \<and> (\<forall>j<k. \<not> p (xs ! j)))"
proof (induction xs arbitrary: i)
  case Nil
  then show ?case by simp
next
  case (Cons x xs)
  show ?case
  proof (cases "p x")
    case True
    then show ?thesis by (intro disjI2 exI[of _ 0]) simp
  next
    case False
    from Cons.IH[of "i + 1"] Cons.prems
    consider "findIndex_from (i + 1) p xs = - 1 \<and> (\<forall>x\<in>set xs. \<not> p x)"
      | k where "k < length xs" "findIndex_from (i + 1) p xs = i + 1 + int k" "p (xs ! k)" "\<forall>j<k. \<not> p (xs ! j)"
      by auto
    then show ?thesis
    proof cases
      case 1
      then show ?thesis using False by simp
    next
      case 2
      have "\<forall>j<Suc k. \<not> p ((x # xs) ! j)"
        using 2(4) False by (auto simp: nth_Cons split: nat.splits)
      then show ?thesis using 2 False
        by (intro disjI2 exI[of _ "Suc k"]) simp
    qed
  qed
qed

lemma findIndex_cases:
  "(findIndex p xs = - 1 \<and> (\<forall>x\<in>set xs. \<not> p x))
   \<or> (\<exists>k<length xs. findIndex p xs = int k \<and> p (xs ! k) \<and> (\<forall>j<k. \<not> p (xs ! j)))"
  using findIndex_from_cases[of 0 p xs] by (simp add: findIndex_def)

lemma findIndex_minus1_iff: "findIndex p xs = - 1 \<longleftrightarrow> (\<forall>x\<in>set xs. \<not> p x)"
  using findIndex_cases[of p xs] nth_mem[of _ xs] by fastforce

lemma findIndex_nat:
  assumes "findIndex p xs = int k"
  shows "k < length xs \<and> p (xs ! k) \<and> (\<forall>j<k. \<not> p (xs ! j))"
  using findIndex_cases[of p xs] assms by auto

lemma findIndex_distinct:
  assumes "distinct (map f xs)" "k < length xs"
  shows "findIndex (\<lambda>x. f x = f (xs ! k)) xs = int k"
proof -
  from findIndex_cases[of "\<lambda>x. f x = f (xs ! k)" xs] assms(2)
  obtain k' where k': "k' < length xs" "findIndex (\<lambda>x. f x = f (xs ! k)) xs = int k'" "f (xs ! k') = f (xs ! k)"
    using nth_mem[of k xs] by fastforce
  have "k' = k" using assms k'(1,3) by (auto simp: distinct_conv_nth)
  with k' show ?thesis by simp
qed

lemma js_insort_set: "set (js_insort cmp x xs) = insert x (set xs)"
  by (induction xs) auto

lemma js_insort_length: "length (js_insort cmp x xs) = Suc (length xs)"
  by (induction xs) auto

lemma set_js_sort: "set (js_sort cmp xs) = set xs"
  by (induction xs) (simp_all add: js_sort_def js_insort_set)

lemma length_js_sort: "length (js_sort cmp xs) = length xs"
  by (induction xs) (simp_all add: js_sort_def js_insort_length)

lemma js_sort_id:
  "sorted_wrt (\<lambda>a b. \<not> js_lt (Fin 0) (cmp a b)) xs \<Longrightarrow> js_sort cmp xs = xs"
proof (induction xs)
  case Nil
  then show ?case by (simp add: js_sort_def)
next
  case (Cons x xs)
  then have "js_sort cmp (x # xs) = js_insort cmp x xs"
    by (simp add: js_sort_def)
  also have "\<dots> = x # xs" using Cons.prems by (cases xs) simp_all
  finally show ?case .
qed

lemma js_sub_not_positive: "js_lt a b \<Longrightarrow> \<not> js_lt (Fin 0) (js_sub a b)"
  by (cases a; cases b) (simp_all add: js_sub_def)

lemma js_sort_byDate_ascending:
  assumes "sorted_wrt (\<lambda>a b. js_lt (getTime h (date a)) (getTime h (date b))) xs"
  shows "js_sort (byDate h) xs = xs"
proof -
  have "sorted_wrt (\<lambda>a b. \<not> js_lt (Fin 0) (byDate h a b)) xs"
    using assms by (rule sorted_wrt_mono_rel[rotated]) (simp add: byDate_def js_sub_not_positive)
  then show ?thesis by (rule js_sort_id)
qed

lemma js_lt_irrefl: "\<not> js_lt a a"
  by (cases a) simp_all

lemma ascending_distinct_dates:
  assumes "sorted_wrt (\<lambda>a b. js_lt (getTime h (date a)) (getTime h (date b))) xs"
  shows "distinct (map date xs)"
  using assms
proof (induction xs)
  case Nil
  then show ?case by simp
next
  case (Cons x xs)
  have "date x \<notin> date ` set xs"
  proof
    assume "date x \<in> date ` set xs"
    then obtain y where "y \<in> set xs" "date y = date x" by auto
    with Cons.prems have "js_lt (getTime h (date x)) (getTime h (date x))" by auto
    then show False by (simp add: js_lt_irrefl)
  qed
  with Cons show ?case by simp
qed

lemma js_slice_window:
  assumes "bi \<le> si" "si < length xs"
  shows "js_slice (int bi) (int si + 1) xs = take (Suc si - bi) (drop bi xs)"
  using assms by (simp add: js_slice_def js_slice_index_def min_def nat_add_distrib)

lemma returnEffect_window:
  assumes dates: "buyDate st \<noteq> []" "sellDate st \<noteq> []"
    and bi: "findIndex (\<lambda>entry. date entry = buyDate st) (js_sort (byDate h) (entries st)) = int bi"
    and si: "findIndex (\<lambda>entry. date entry = sellDate st) (js_sort (byDate h) (entries st)) = int si"
    and le: "bi \<le> si"
  shows "returnEffect h st =
    (let sorted = js_sort (byDate h) (entries st);
         windowEntries = take (Suc si - bi) (drop bi sorted);
         entryCost = sell (sorted ! bi)
     in if \<not> js_isFinite entryCost \<or> js_le entryCost (Fin 0) then
          st\<lparr>chartData := None, stats := None,
             error := Some ''Sell price unavailable for the selected start date.''\<rparr>
        else
          st\<lparr>error := None,
             stats := Some \<lparr>
               latestReturn = js_mul (js_div (js_sub (buy (sorted ! si)) entryCost) entryCost) (Fin 100),
               entryCost = entryCost,
               exitProceeds = buy (sorted ! si),
               absoluteChange = js_sub (buy (sorted ! si)) entryCost,
               holdingDays = Math_max [Fin 0,
                 Math_round (js_div (js_sub (getTime h (sellDate st)) (getTime h (buyDate st)))
                   (Fin (1000 * 60 * 60 * 24)))]\<rparr>,
             chartData := Some \<lparr>
               labels = map (\<lambda>entry. formatDateLabel h (date entry)) windowEntries,
               data = map (\<lambda>entry. js_mul (js_div (js_sub (buy entry) entryCost) entryCost) (Fin 100)) windowEntries,
               absoluteData = map (\<lambda>entry. js_sub (buy entry) entryCost) windowEntries\<rparr>\<rparr>)"
proof -
  define sorted where "sorted = js_sort (byDate h) (entries st)"
  define windowEntries where "windowEntries = take (Suc si - bi) (drop bi sorted)"
  have si_lt: "si < length sorted"
    using findIndex_nat[OF si] by (simp add: sorted_def)
  then have ne: "length (entries st) \<noteq> 0"
    by (auto simp: sorted_def length_js_sort)
  have slice: "js_slice (int bi) (int si + 1) sorted = windowEntries"
    using js_slice_window[OF le si_lt] by (simp add: windowEntries_def)
  have len: "length windowEntries = Suc si - bi"
    using si_lt le by (simp add: windowEntries_def)
  have first: "windowEntries ! 0 = sorted ! bi"
    using si_lt le by (simp add: windowEntries_def)
  have final: "windowEntries ! (si - bi) = sorted ! si"
    using si_lt le by (simp add: windowEntries_def)
  have lenm: "length windowEntries - 1 = si - bi" using len le by simp
  have lt: "si - bi < length windowEntries" using len le by simp
  have bi': "findIndex (\<lambda>entry. date entry = buyDate st) sorted = int bi"
    and si': "findIndex (\<lambda>entry. date entry = sellDate st) sorted = int si"
    using bi si by (simp_all add: sorted_def)
  show ?thesis
    unfolding returnEffect_def Let_def sorted_def[symmetric] bi' si'
    using dates ne le
    by (simp add: slice len first final lenm lt windowEntries_def[symmetric])
qed

lemma utc_getTime_scenario:
  "utc_getTime ''2025-01-01'' = Fin 1735689600000"
  "utc_getTime ''2025-01-02'' = Fin 1735776000000"
  "utc_getTime ''2025-01-03'' = Fin 1735862400000"
  by (simp_all add: utc_getTime_def iso_date_def digit_value_def days_in_month_def days_from_civil_def)

lemma js_sort_scenario:
  "js_sort (byDate utc_host)
     [\<lparr>date = ''2025-01-01'', buy = Fin 100, sell = Fin 110\<rparr>,
      \<lparr>date = ''2025-01-02'', buy = Fin 105, sell = Fin 115\<rparr>,
      \<lparr>date = ''2025-01-03'', buy = Fin 120, sell = Fin 130\<rparr>] =
     [\<lparr>date = ''2025-01-01'', buy = Fin 100, sell = Fin 110\<rparr>,
      \<lparr>date = ''2025-01-02'', buy = Fin 105, sell = Fin 115\<rparr>,
      \<lparr>date = ''2025-01-03'', buy = Fin 120, sell = Fin 130\<rparr>]"
  by (simp add: js_sort_def byDate_def utc_host_def utc_getTime_scenario js_sub_def)


lemma js_pct_nonzero:
  assumes "js_isFinite c" "\<not> js_le c (Fin 0)" "b \<noteq> c"
  shows "js_mul (js_div (js_sub b c) c) (Fin 100) \<noteq> Fin 0"
  using assms by (cases b; cases c) (auto simp: js_sub_def js_le_def js_signed_inf_def)

text \<open>
  C1. On a series in strictly ascending date order, with the (non-empty) buy date at index
  \<open>bi\<close> and the (non-empty) sell date at index \<open>si \<ge> bi\<close>, the summary of the return pass has the sell price of
  the first point of the window as \<open>entryCost\<close>, the buy price of its last point as
  \<open>exitProceeds\<close>, \<open>absoluteChange = exitProceeds - entryCost\<close> and
  \<open>latestReturn = (exitProceeds - entryCost) / entryCost * 100\<close>; the summary exists
  exactly when that sell price is finite and above zero. On the three-point scenario from
  2025-01-01 to 2025-01-03 the summary is 110, 120, 10 and \<open>(120 - 110) / 110 * 100\<close>.
\<close>

theorem returnEngine_summary:
  "(sorted_wrt (\<lambda>a b. js_lt (getTime h (date a)) (getTime h (date b))) (entries st)
     \<and> bi \<le> si \<and> si < length (entries st)
     \<and> buyDate st = date (entries st ! bi) \<and> sellDate st = date (entries st ! si)
     \<and> buyDate st \<noteq> [] \<and> sellDate st \<noteq> []
    \<longrightarrow> (case stats (returnEffect h st) of
           Some s \<Rightarrow>
             entryCost s = sell (entries st ! bi)
           \<and> exitProceeds s = buy (entries st ! si)
           \<and> absoluteChange s = js_sub (exitProceeds s) (entryCost s)
           \<and> latestReturn s = js_mul (js_div (js_sub (exitProceeds s) (entryCost s)) (entryCost s)) (Fin 100)
           \<and> js_isFinite (sell (entries st ! bi)) \<and> js_lt (Fin 0) (sell (entries st ! bi))
         | None \<Rightarrow> \<not> js_isFinite (sell (entries st ! bi)) \<or> js_le (sell (entries st ! bi)) (Fin 0)))
   \<and> stats (returnEffect utc_host
       \<lparr>chartData = None, stats = None, error = None, loading = False,
        entries = [\<lparr>date = ''2025-01-01'', buy = Fin 100, sell = Fin 110\<rparr>,
                   \<lparr>date = ''2025-01-02'', buy = Fin 105, sell = Fin 115\<rparr>,
                   \<lparr>date = ''2025-01-03'', buy = Fin 120, sell = Fin 130\<rparr>],
        buyDate = ''2025-01-01'', sellDate = ''2025-01-03'', activePresetDays = None\<rparr>)
     = Some \<lparr>latestReturn = Fin ((120 - 110) / 110 * 100), entryCost = Fin 110,
             exitProceeds = Fin 120, absoluteChange = Fin 10, holdingDays = Fin 2\<rparr>"
proof (intro conjI impI)
  assume a: "sorted_wrt (\<lambda>a b. js_lt (getTime h (date a)) (getTime h (date b))) (entries st)
     \<and> bi \<le> si \<and> si < length (entries st)
     \<and> buyDate st = date (entries st ! bi) \<and> sellDate st = date (entries st ! si)
     \<and> buyDate st \<noteq> [] \<and> sellDate st \<noteq> []"
  then have asc: "sorted_wrt (\<lambda>a b. js_lt (getTime h (date a)) (getTime h (date b))) (entries st)"
    and le: "bi \<le> si" and si: "si < length (entries st)"
    and bd: "buyDate st = date (entries st ! bi)" and sd: "sellDate st = date (entries st ! si)"
    and ne: "buyDate st \<noteq> []" "sellDate st \<noteq> []"
    by blast+
  have sorted: "js_sort (byDate h) (entries st) = entries st"
    using asc by (rule js_sort_byDate_ascending)
  have dist: "distinct (map date (entries st))"
    using asc by (rule ascending_distinct_dates)
  have fb: "findIndex (\<lambda>entry. date entry = buyDate st) (js_sort (byDate h) (entries st)) = int bi"
    unfolding sorted bd using dist le si by (intro findIndex_distinct) simp_all
  have fs: "findIndex (\<lambda>entry. date entry = sellDate st) (js_sort (byDate h) (entries st)) = int si"
    unfolding sorted sd using dist si by (intro findIndex_distinct) simp_all
  have lt: "\<not> js_le c (Fin 0) \<Longrightarrow> js_isFinite c \<Longrightarrow> js_lt (Fin 0) c" for c
    by (cases c) (auto simp: js_le_def)
  show "case stats (returnEffect h st) of
           Some s \<Rightarrow>
             entryCost s = sell (entries st ! bi)
           \<and> exitProceeds s = buy (entries st ! si)
           \<and> absoluteChange s = js_sub (exitProceeds s) (entryCost s)
           \<and> latestReturn s = js_mul (js_div (js_sub (exitProceeds s) (entryCost s)) (entryCost s)) (Fin 100)
           \<and> js_isFinite (sell (entries st ! bi)) \<and> js_lt (Fin 0) (sell (entries st ! bi))
         | None \<Rightarrow> \<not> js_isFinite (sell (entries st ! bi)) \<or> js_le (sell (entries st ! bi)) (Fin 0)"
    unfolding returnEffect_window[OF ne fb fs le] sorted Let_def
    by (auto simp: lt)
next
  show "stats (returnEffect utc_host
       \<lparr>chartData = None, stats = None, error = None, loading = False,
        entries = [\<lparr>date = ''2025-01-01'', buy = Fin 100, sell = Fin 110\<rparr>,
                   \<lparr>date = ''2025-01-02'', buy = Fin 105, sell = Fin 115\<rparr>,
                   \<lparr>date = ''2025-01-03'', buy = Fin 120, sell = Fin 130\<rparr>],
        buyDate = ''2025-01-01'', sellDate = ''2025-01-03'', activePresetDays = None\<rparr>)
     = Some \<lparr>latestReturn = Fin ((120 - 110) / 110 * 100), entryCost = Fin 110,
             exitProceeds = Fin 120, absoluteChange = Fin 10, holdingDays = Fin 2\<rparr>"
    (is "stats (returnEffect utc_host ?st) = _")
  proof -
    have ne: "buyDate ?st \<noteq> []" "sellDate ?st \<noteq> []" by simp_all
    have fb: "findIndex (\<lambda>entry. date entry = buyDate ?st) (js_sort (byDate utc_host) (entries ?st)) = int 0"
      by (simp add: js_sort_scenario findIndex_def)
    have fs: "findIndex (\<lambda>entry. date entry = sellDate ?st) (js_sort (byDate utc_host) (entries ?st)) = int 2"
      by (simp add: js_sort_scenario findIndex_def)
    have t: "getTime utc_host = utc_getTime" by (simp add: utc_host_def)
    show ?thesis
      unfolding returnEffect_window[OF ne fb fs le0]
      by (simp add: Let_def js_sort_scenario js_le_def js_sub_def Math_max_def js_max2_def t
            utc_getTime_scenario)
  qed
qed


theorem returnEngine_summary_witness:
  "sorted_wrt (\<lambda>a b. js_lt (getTime utc_host (date a)) (getTime utc_host (date b)))
     [\<lparr>date = ''2025-01-01'', buy = Fin 100, sell = Fin 110\<rparr>,
      \<lparr>date = ''2025-01-02'', buy = Fin 105, sell = Fin 115\<rparr>,
      \<lparr>date = ''2025-01-03'', buy = Fin 120, sell = Fin 130\<rparr>]
   \<and> (case stats (returnEffect utc_host
         \<lparr>chartData = None, stats = None, error = None, loading = False,
          entries = [\<lparr>date = ''2025-01-01'', buy = Fin 100, sell = Fin 110\<rparr>,
                     \<lparr>date = ''2025-01-02'', buy = Fin 105, sell = Fin 115\<rparr>,
                     \<lparr>date = ''2025-01-03'', buy = Fin 120, sell = Fin 130\<rparr>],
          buyDate = ''2025-01-02'', sellDate = ''2025-01-03'', activePresetDays = None\<rparr>) of
        Some s \<Rightarrow> entryCost s = Fin 115 \<and> exitProceeds s = Fin 120 \<and> absoluteChange s = Fin 5
                \<and> latestReturn s = Fin (100 / 23)
      | None \<Rightarrow> False)"
proof -
  let ?es = "[\<lparr>date = ''2025-01-01'', buy = Fin 100, sell = Fin 110\<rparr>,
              \<lparr>date = ''2025-01-02'', buy = Fin 105, sell = Fin 115\<rparr>,
              \<lparr>date = ''2025-01-03'', buy = Fin 120, sell = Fin 130\<rparr>]"
  let ?st = "\<lparr>chartData = None, stats = None, error = None, loading = False,
          entries = ?es, buyDate = ''2025-01-02'', sellDate = ''2025-01-03'',
          activePresetDays = None\<rparr> :: return_view"
  have asc: "sorted_wrt (\<lambda>a b. js_lt (getTime utc_host (date a)) (getTime utc_host (date b))) ?es"
    by (simp add: utc_host_def utc_getTime_scenario)
  have hyp: "sorted_wrt (\<lambda>a b. js_lt (getTime utc_host (date a)) (getTime utc_host (date b))) (entries ?st)
     \<and> 1 \<le> (2::nat) \<and> 2 < length (entries ?st)
     \<and> buyDate ?st = date (entries ?st ! 1) \<and> sellDate ?st = date (entries ?st ! 2)
     \<and> buyDate ?st \<noteq> [] \<and> sellDate ?st \<noteq> []"
    using asc by simp
  from returnEngine_summary [of utc_host ?st 1 2, THEN conjunct1, rule_format, OF hyp]
  show ?thesis using asc
    by (auto simp: js_le_def js_sub_def split: option.splits)
qed

text \<open>
  C2. When both dates are found in the sorted series, the buy date not after the sell
  date, and the cost basis is finite and above zero, the return pass produces a curve over
  the window from the one to the other. Its value at every point \<open>p\<close> of the window,
  the first included, is \<open>(p.buy - costBasis) / costBasis * 100\<close> with the first point's sell
  price as cost basis; the first value is \<open>(first.buy - first.sell) / first.sell * 100\<close>,
  and it is not zero when the first point's buy and sell prices differ.
\<close>

theorem returnCurve_pointwise:
  assumes "buyDate st \<noteq> []" and "sellDate st \<noteq> []"
    and "ordered = js_sort (byDate h) (entries st)"
    and "findIndex (\<lambda>entry. date entry = buyDate st) ordered = int bi"
    and "findIndex (\<lambda>entry. date entry = sellDate st) ordered = int si"
    and "bi \<le> si"
    and "costBasis = sell (ordered ! bi)"
    and "js_isFinite costBasis" and "js_lt (Fin 0) costBasis"
  shows "\<exists>c. chartData (returnEffect h st) = Some c
     \<and> length (data c) = Suc si - bi
     \<and> (\<forall>k<Suc si - bi.
           data c ! k = js_mul (js_div (js_sub (buy (ordered ! (bi + k))) costBasis) costBasis) (Fin 100))
     \<and> data c ! 0 = js_mul (js_div (js_sub (buy (ordered ! bi)) (sell (ordered ! bi))) (sell (ordered ! bi))) (Fin 100)
     \<and> (buy (ordered ! bi) \<noteq> sell (ordered ! bi) \<longrightarrow> data c ! 0 \<noteq> Fin 0)"
proof -
  have si_lt: "si < length ordered"
    using findIndex_nat[OF assms(5)] by simp
  have nle: "\<not> js_le costBasis (Fin 0)"
    using assms(8,9) by (cases costBasis) (auto simp: js_le_def)
  have eq: "chartData (returnEffect h st) = Some \<lparr>
      labels = map (\<lambda>entry. formatDateLabel h (date entry)) (take (Suc si - bi) (drop bi ordered)),
      data = map (\<lambda>entry. js_mul (js_div (js_sub (buy entry) costBasis) costBasis) (Fin 100))
               (take (Suc si - bi) (drop bi ordered)),
      absoluteData = map (\<lambda>entry. js_sub (buy entry) costBasis) (take (Suc si - bi) (drop bi ordered))\<rparr>"
    using returnEffect_window[OF assms(1,2) assms(4)[unfolded assms(3)] assms(5)[unfolded assms(3)] assms(6)]
      assms(8) nle
    by (simp add: Let_def assms(3)[symmetric] assms(7)[symmetric])
  have len: "length (take (Suc si - bi) (drop bi ordered)) = Suc si - bi"
    using si_lt assms(6) by simp
  have nz: "buy (ordered ! bi) \<noteq> costBasis \<Longrightarrow>
      js_mul (js_div (js_sub (buy (ordered ! bi)) costBasis) costBasis) (Fin 100) \<noteq> Fin 0"
    using js_pct_nonzero[OF assms(8) nle] by simp
  show ?thesis
    unfolding eq using si_lt assms(6) nz
    by (auto simp: assms(7)[symmetric])
qed


theorem returnCurve_pointwise_witness:
  "findIndex (\<lambda>entry. date entry = ''2025-01-01'')
     (js_sort (byDate utc_host)
       [\<lparr>date = ''2025-01-01'', buy = Fin 100, sell = Fin 110\<rparr>,
        \<lparr>date = ''2025-01-02'', buy = Fin 105, sell = Fin 115\<rparr>,
        \<lparr>date = ''2025-01-03'', buy = Fin 120, sell = Fin 130\<rparr>]) = int 0
   \<and> findIndex (\<lambda>entry. date entry = ''2025-01-03'')
     (js_sort (byDate utc_host)
       [\<lparr>date = ''2025-01-01'', buy = Fin 100, sell = Fin 110\<rparr>,
        \<lparr>date = ''2025-01-02'', buy = Fin 105, sell = Fin 115\<rparr>,
        \<lparr>date = ''2025-01-03'', buy = Fin 120, sell = Fin 130\<rparr>]) = int 2
   \<and> (case chartData (returnEffect utc_host
         \<lparr>chartData = None, stats = None, error = None, loading = False,
          entries = [\<lparr>date = ''2025-01-01'', buy = Fin 100, sell = Fin 110\<rparr>,
                     \<lparr>date = ''2025-01-02'', buy = Fin 105, sell = Fin 115\<rparr>,
                     \<lparr>date = ''2025-01-03'', buy = Fin 120, sell = Fin 130\<rparr>],
          buyDate = ''2025-01-01'', sellDate = ''2025-01-03'', activePresetDays = None\<rparr>) of
        Some c \<Rightarrow> length (data c) = 3 \<and> data c ! 0 = Fin (- 100 / 11) \<and> data c ! 0 \<noteq> Fin 0
                \<and> data c ! 1 = Fin (- 50 / 11) \<and> data c ! 2 = Fin (100 / 11)
      | None \<Rightarrow> False)"
proof -
  let ?es = "[\<lparr>date = ''2025-01-01'', buy = Fin 100, sell = Fin 110\<rparr>,
              \<lparr>date = ''2025-01-02'', buy = Fin 105, sell = Fin 115\<rparr>,
              \<lparr>date = ''2025-01-03'', buy = Fin 120, sell = Fin 130\<rparr>]"
  let ?st = "\<lparr>chartData = None, stats = None, error = None, loading = False,
          entries = ?es, buyDate = ''2025-01-01'', sellDate = ''2025-01-03'',
          activePresetDays = None\<rparr> :: return_view"
  have ne: "buyDate ?st \<noteq> []" "sellDate ?st \<noteq> []" by simp_all
  have srt: "?es = js_sort (byDate utc_host) (entries ?st)"
    by (simp add: js_sort_scenario)
  have fb: "findIndex (\<lambda>entry. date entry = buyDate ?st) ?es = int 0"
    by (simp add: findIndex_def)
  have fs: "findIndex (\<lambda>entry. date entry = sellDate ?st) ?es = int 2"
    by (simp add: findIndex_def)
  have cb: "Fin 110 = sell (?es ! 0)" by simp
  from returnCurve_pointwise [OF ne srt fb fs _ cb]
  obtain c where c: "chartData (returnEffect utc_host ?st) = Some c"
    "length (data c) = Suc 2 - 0"
    "\<forall>k<Suc 2 - 0. data c ! k = js_mul (js_div (js_sub (buy (?es ! (0 + k))) (Fin 110)) (Fin 110)) (Fin 100)"
    "buy (?es ! 0) \<noteq> sell (?es ! 0) \<longrightarrow> data c ! 0 \<noteq> Fin 0"
    by auto
  have "data c ! 0 = Fin (- 100 / 11)" "data c ! 1 = Fin (- 50 / 11)" "data c ! 2 = Fin (100 / 11)"
    using c(3) by (simp_all add: js_sub_def)
  moreover have "data c ! 0 \<noteq> Fin 0" using c(4) by simp
  ultimately show ?thesis
    using c(1,2) fb fs by (simp add: js_sort_scenario)
qed

text \<open>
  C3. When both dates are found in the sorted series and the sell date's index is before
  the buy date's, the return pass clears chart and stats and sets the range-order message. No
  outcome of the fetch (no data, or a failed request) carries that message, and it is not
  the empty-window message. The three-point scenario with buy date 2025-01-03 and sell
  date 2025-01-01 ends in the range-order error.
\<close>

theorem rangeOrder_error:
  "(buyDate st \<noteq> [] \<and> sellDate st \<noteq> []
     \<and> findIndex (\<lambda>entry. date entry = buyDate st) (js_sort (byDate h) (entries st)) = int bi
     \<and> findIndex (\<lambda>entry. date entry = sellDate st) (js_sort (byDate h) (entries st)) = int si
     \<and> si < bi
    \<longrightarrow> returnEffect h st =
          st\<lparr>chartData := None, stats := None,
             error := Some ''Sell date must be the same as or after the buy date.''\<rparr>
      \<and> error (returnEffect h st) \<noteq> error (fetchData h toNumber response st')
      \<and> error (returnEffect h st) \<noteq> Some ''No data in the selected window.'')
   \<and> returnEffect utc_host
       \<lparr>chartData = None, stats = None, error = None, loading = False,
        entries = [\<lparr>date = ''2025-01-01'', buy = Fin 100, sell = Fin 110\<rparr>,
                   \<lparr>date = ''2025-01-02'', buy = Fin 105, sell = Fin 115\<rparr>,
                   \<lparr>date = ''2025-01-03'', buy = Fin 120, sell = Fin 130\<rparr>],
        buyDate = ''2025-01-03'', sellDate = ''2025-01-01'', activePresetDays = None\<rparr>
     = \<lparr>chartData = None, stats = None,
        error = Some ''Sell date must be the same as or after the buy date.'', loading = False,
        entries = [\<lparr>date = ''2025-01-01'', buy = Fin 100, sell = Fin 110\<rparr>,
                   \<lparr>date = ''2025-01-02'', buy = Fin 105, sell = Fin 115\<rparr>,
                   \<lparr>date = ''2025-01-03'', buy = Fin 120, sell = Fin 130\<rparr>],
        buyDate = ''2025-01-03'', sellDate = ''2025-01-01'', activePresetDays = None\<rparr>"
proof (intro conjI impI)
  assume a: "buyDate st \<noteq> [] \<and> sellDate st \<noteq> []
     \<and> findIndex (\<lambda>entry. date entry = buyDate st) (js_sort (byDate h) (entries st)) = int bi
     \<and> findIndex (\<lambda>entry. date entry = sellDate st) (js_sort (byDate h) (entries st)) = int si
     \<and> si < bi"
  then have "bi < length (js_sort (byDate h) (entries st))"
    using findIndex_nat by blast
  then have ne: "entries st \<noteq> []"
    by (auto simp: length_js_sort)
  show r: "returnEffect h st =
          st\<lparr>chartData := None, stats := None,
             error := Some ''Sell date must be the same as or after the buy date.''\<rparr>"
    using a ne by (simp add: returnEffect_def Let_def)
  have f: "error (fetchData h toNumber response st') = None
      \<or> error (fetchData h toNumber response st') = Some ''Unable to load return data right now.''
      \<or> error (fetchData h toNumber response st') = Some ''No data available for the selected gold type.''"
    by (simp add: fetchData_def Let_def split: response.splits completion.splits option.splits)
  show "error (returnEffect h st) \<noteq> error (fetchData h toNumber response st')"
    using f unfolding r by auto
  show "error (returnEffect h st) \<noteq> Some ''No data in the selected window.''"
    unfolding r by simp
next
  show "returnEffect utc_host
       \<lparr>chartData = None, stats = None, error = None, loading = False,
        entries = [\<lparr>date = ''2025-01-01'', buy = Fin 100, sell = Fin 110\<rparr>,
                   \<lparr>date = ''2025-01-02'', buy = Fin 105, sell = Fin 115\<rparr>,
                   \<lparr>date = ''2025-01-03'', buy = Fin 120, sell = Fin 130\<rparr>],
        buyDate = ''2025-01-03'', sellDate = ''2025-01-01'', activePresetDays = None\<rparr>
     = \<lparr>chartData = None, stats = None,
        error = Some ''Sell date must be the same as or after the buy date.'', loading = False,
        entries = [\<lparr>date = ''2025-01-01'', buy = Fin 100, sell = Fin 110\<rparr>,
                   \<lparr>date = ''2025-01-02'', buy = Fin 105, sell = Fin 115\<rparr>,
                   \<lparr>date = ''2025-01-03'', buy = Fin 120, sell = Fin 130\<rparr>],
        buyDate = ''2025-01-03'', sellDate = ''2025-01-01'', activePresetDays = None\<rparr>"
    by (simp add: returnEffect_def Let_def js_sort_scenario findIndex_def)
qed

theorem rangeOrder_error_witness:
  "findIndex (\<lambda>entry. date entry = ''2025-01-03'')
     (js_sort (byDate utc_host)
       [\<lparr>date = ''2025-01-01'', buy = Fin 100, sell = Fin 110\<rparr>,
        \<lparr>date = ''2025-01-02'', buy = Fin 105, sell = Fin 115\<rparr>,
        \<lparr>date = ''2025-01-03'', buy = Fin 120, sell = Fin 130\<rparr>]) = int 2
   \<and> findIndex (\<lambda>entry. date entry = ''2025-01-02'')
     (js_sort (byDate utc_host)
       [\<lparr>date = ''2025-01-01'', buy = Fin 100, sell = Fin 110\<rparr>,
        \<lparr>date = ''2025-01-02'', buy = Fin 105, sell = Fin 115\<rparr>,
        \<lparr>date = ''2025-01-03'', buy = Fin 120, sell = Fin 130\<rparr>]) = int 1
   \<and> error (returnEffect utc_host
         \<lparr>chartData = None, stats = None, error = None, loading = False,
          entries = [\<lparr>date = ''2025-01-01'', buy = Fin 100, sell = Fin 110\<rparr>,
                     \<lparr>date = ''2025-01-02'', buy = Fin 105, sell = Fin 115\<rparr>,
                     \<lparr>date = ''2025-01-03'', buy = Fin 120, sell = Fin 130\<rparr>],
          buyDate = ''2025-01-03'', sellDate = ''2025-01-02'', activePresetDays = None\<rparr>)
       = Some ''Sell date must be the same as or after the buy date.''
   \<and> chartData (returnEffect utc_host
         \<lparr>chartData = None, stats = None, error = None, loading = False,
          entries = [\<lparr>date = ''2025-01-01'', buy = Fin 100, sell = Fin 110\<rparr>,
                     \<lparr>date = ''2025-01-02'', buy = Fin 105, sell = Fin 115\<rparr>,
                     \<lparr>date = ''2025-01-03'', buy = Fin 120, sell = Fin 130\<rparr>],
          buyDate = ''2025-01-03'', sellDate = ''2025-01-02'', activePresetDays = None\<rparr>)
       = None"
proof -
  let ?es = "[\<lparr>date = ''2025-01-01'', buy = Fin 100, sell = Fin 110\<rparr>,
              \<lparr>date = ''2025-01-02'', buy = Fin 105, sell = Fin 115\<rparr>,
              \<lparr>date = ''2025-01-03'', buy = Fin 120, sell = Fin 130\<rparr>]"
  let ?st = "\<lparr>chartData = None, stats = None, error = None, loading = False,
          entries = ?es, buyDate = ''2025-01-03'', sellDate = ''2025-01-02'',
          activePresetDays = None\<rparr> :: return_view"
  have fb: "findIndex (\<lambda>entry. date entry = ''2025-01-03'') (js_sort (byDate utc_host) ?es) = int 2"
    by (simp add: js_sort_scenario findIndex_def)
  have fs: "findIndex (\<lambda>entry. date entry = ''2025-01-02'') (js_sort (byDate utc_host) ?es) = int 1"
    by (simp add: js_sort_scenario findIndex_def)
  have hyp: "buyDate ?st \<noteq> [] \<and> sellDate ?st \<noteq> []
     \<and> findIndex (\<lambda>entry. date entry = buyDate ?st) (js_sort (byDate utc_host) (entries ?st)) = int 2
     \<and> findIndex (\<lambda>entry. date entry = sellDate ?st) (js_sort (byDate utc_host) (entries ?st)) = int 1
     \<and> (1::nat) < 2"
    using fb fs by simp
  from rangeOrder_error [of ?st utc_host 2 1, THEN conjunct1, rule_format, OF hyp, THEN conjunct1]
  have "returnEffect utc_host ?st = ?st\<lparr>chartData := None, stats := None,
             error := Some ''Sell date must be the same as or after the buy date.''\<rparr>" .
  then show ?thesis using fb fs by simp
qed

text \<open>
  C4. When the window exists and the sell price of its first point is zero (or anything
  not above zero) or not finite, the return pass ends with the "unavailable" message and
  neither a curve nor stats: nothing is divided by such a cost basis.
\<close>

theorem costBasis_unavailable:
  assumes "buyDate st \<noteq> []" and "sellDate st \<noteq> []"
    and "ordered = js_sort (byDate h) (entries st)"
    and "findIndex (\<lambda>entry. date entry = buyDate st) ordered = int bi"
    and "findIndex (\<lambda>entry. date entry = sellDate st) ordered = int si"
    and "bi \<le> si"
    and "costBasis = sell (ordered ! bi)"
    and "js_le costBasis (Fin 0) \<or> \<not> js_isFinite costBasis"
  shows "returnEffect h st =
           st\<lparr>chartData := None, stats := None,
              error := Some ''Sell price unavailable for the selected start date.''\<rparr>
       \<and> chartData (returnEffect h st) = None
       \<and> stats (returnEffect h st) = None
       \<and> error (returnEffect h st) = Some ''Sell price unavailable for the selected start date.''"
proof -
  have "returnEffect h st =
           st\<lparr>chartData := None, stats := None,
              error := Some ''Sell price unavailable for the selected start date.''\<rparr>"
    using returnEffect_window[OF assms(1,2) assms(4)[unfolded assms(3)] assms(5)[unfolded assms(3)] assms(6)]
      assms(8)
    by (auto simp: Let_def assms(3)[symmetric] assms(7)[symmetric])
  then show ?thesis by simp
qed

theorem costBasis_unavailable_witness:
  "findIndex (\<lambda>entry. date entry = ''2025-01-01'')
     (js_sort (byDate utc_host)
       [\<lparr>date = ''2025-01-01'', buy = Fin 100, sell = Fin 0\<rparr>,
        \<lparr>date = ''2025-01-02'', buy = Fin 105, sell = Fin 115\<rparr>]) = int 0
   \<and> findIndex (\<lambda>entry. date entry = ''2025-01-02'')
     (js_sort (byDate utc_host)
       [\<lparr>date = ''2025-01-01'', buy = Fin 100, sell = Fin 0\<rparr>,
        \<lparr>date = ''2025-01-02'', buy = Fin 105, sell = Fin 115\<rparr>]) = int 1
   \<and> js_le (Fin 0) (Fin 0)
   \<and> returnEffect utc_host
         \<lparr>chartData = None, stats = None, error = None, loading = False,
          entries = [\<lparr>date = ''2025-01-01'', buy = Fin 100, sell = Fin 0\<rparr>,
                     \<lparr>date = ''2025-01-02'', buy = Fin 105, sell = Fin 115\<rparr>],
          buyDate = ''2025-01-01'', sellDate = ''2025-01-02'', activePresetDays = None\<rparr>
     = \<lparr>chartData = None, stats = None,
          error = Some ''Sell price unavailable for the selected start date.'', loading = False,
          entries = [\<lparr>date = ''2025-01-01'', buy = Fin 100, sell = Fin 0\<rparr>,
                     \<lparr>date = ''2025-01-02'', buy = Fin 105, sell = Fin 115\<rparr>],
          buyDate = ''2025-01-01'', sellDate = ''2025-01-02'', activePresetDays = None\<rparr>"
proof -
  let ?es = "[\<lparr>date = ''2025-01-01'', buy = Fin 100, sell = Fin 0\<rparr>,
              \<lparr>date = ''2025-01-02'', buy = Fin 105, sell = Fin 115\<rparr>]"
  let ?st = "\<lparr>chartData = None, stats = None, error = None, loading = False,
          entries = ?es, buyDate = ''2025-01-01'', sellDate = ''2025-01-02'',
          activePresetDays = None\<rparr> :: return_view"
  have ne: "buyDate ?st \<noteq> []" "sellDate ?st \<noteq> []" by simp_all
  have srt: "?es = js_sort (byDate utc_host) (entries ?st)"
    by (simp add: js_sort_def byDate_def utc_host_def utc_getTime_scenario js_sub_def)
  have fb: "findIndex (\<lambda>entry. date entry = buyDate ?st) ?es = int 0"
    by (simp add: findIndex_def)
  have fs: "findIndex (\<lambda>entry. date entry = sellDate ?st) ?es = int 1"
    by (simp add: findIndex_def)
  have cb: "Fin 0 = sell (?es ! 0)" by simp
  have z: "js_le (Fin 0) (Fin 0)" by (simp add: js_le_def)
  have le: "(0::nat) \<le> 1" by simp
  from costBasis_unavailable [OF ne srt fb fs le cb disjI1, OF z]
  have "returnEffect utc_host ?st =
          ?st\<lparr>chartData := None, stats := None,
              error := Some ''Sell price unavailable for the selected start date.''\<rparr>"
    by blast
  then show ?thesis using fb fs z srt[symmetric] by simp
qed

lemma returnEffect_unchanged_iff:
  "entries st = [] \<or> buyDate st = [] \<or> sellDate st = []
     \<or> buyDate st \<notin> date ` set (entries st) \<or> sellDate st \<notin> date ` set (entries st)
   \<Longrightarrow> returnEffect h st = st"
proof -
  assume "entries st = [] \<or> buyDate st = [] \<or> sellDate st = []
     \<or> buyDate st \<notin> date ` set (entries st) \<or> sellDate st \<notin> date ` set (entries st)"
  then have "entries st = [] \<or> buyDate st = [] \<or> sellDate st = []
     \<or> findIndex (\<lambda>entry. date entry = buyDate st) (js_sort (byDate h) (entries st)) = - 1
     \<or> findIndex (\<lambda>entry. date entry = sellDate st) (js_sort (byDate h) (entries st)) = - 1"
    unfolding findIndex_minus1_iff set_js_sort by (auto simp: image_iff)
  then show ?thesis
    by (elim disjE) (simp_all add: returnEffect_def Let_def)
qed

lemma returnEffect_outcomes:
  "(if entries st = [] \<or> buyDate st = [] \<or> sellDate st = []
       \<or> buyDate st \<notin> date ` set (entries st) \<or> sellDate st \<notin> date ` set (entries st)
    then returnEffect h st = st
    else (error (returnEffect h st) \<noteq> None \<and> chartData (returnEffect h st) = None
            \<and> stats (returnEffect h st) = None)
       \<noteq> (error (returnEffect h st) = None \<and> chartData (returnEffect h st) \<noteq> None
            \<and> stats (returnEffect h st) \<noteq> None))"
proof (cases "entries st = [] \<or> buyDate st = [] \<or> sellDate st = []
       \<or> buyDate st \<notin> date ` set (entries st) \<or> sellDate st \<notin> date ` set (entries st)")
  case True
  then show ?thesis using returnEffect_unchanged_iff[of st h] by simp
next
  case False
  then have ne: "buyDate st \<noteq> []" "sellDate st \<noteq> []"
    and mem: "buyDate st \<in> date ` set (entries st)" "sellDate st \<in> date ` set (entries st)"
    by simp_all
  let ?ordered = "js_sort (byDate h) (entries st)"
  from mem(1) have "findIndex (\<lambda>entry. date entry = buyDate st) ?ordered \<noteq> - 1"
    by (auto simp: findIndex_minus1_iff set_js_sort)
  then obtain bi where bi: "findIndex (\<lambda>entry. date entry = buyDate st) ?ordered = int bi"
    using findIndex_cases[of "\<lambda>entry. date entry = buyDate st" ?ordered] by auto
  from mem(2) have "findIndex (\<lambda>entry. date entry = sellDate st) ?ordered \<noteq> - 1"
    by (auto simp: findIndex_minus1_iff set_js_sort)
  then obtain si where si: "findIndex (\<lambda>entry. date entry = sellDate st) ?ordered = int si"
    using findIndex_cases[of "\<lambda>entry. date entry = sellDate st" ?ordered] by auto
  have out: "(error (returnEffect h st) \<noteq> None \<and> chartData (returnEffect h st) = None
            \<and> stats (returnEffect h st) = None)
       \<noteq> (error (returnEffect h st) = None \<and> chartData (returnEffect h st) \<noteq> None
            \<and> stats (returnEffect h st) \<noteq> None)"
  proof (cases "si < bi")
    case True
    have "returnEffect h st = st\<lparr>chartData := None, stats := None,
             error := Some ''Sell date must be the same as or after the buy date.''\<rparr>"
      using False bi si True by (simp add: returnEffect_def Let_def)
    then show ?thesis by simp
  next
    case False
    then have le: "bi \<le> si" by simp
    show ?thesis
      unfolding returnEffect_window[OF ne bi si le] Let_def by simp
  qed
  show ?thesis using False out by simp
qed


section \<open>Properties of the daily change\<close>

lemma collect_Normal: "collect (map Normal xs) = Normal xs"
  by (induction xs) simp_all

lemma collect_map_Normal: "collect (map (\<lambda>i. Normal (f i)) is) = Normal (map f is)"
  using collect_Normal[of "map f is"] by (simp add: comp_def)

lemma filter_Boolean_Some: "filter_Boolean (map (\<lambda>i. Some (f i)) is) = map f is"
  by (induction "is") (simp_all add: filter_Boolean_def)

lemma Number_at_finite:
  assumes "map toNumber bs = map Fin rs" "idx < length bs"
  shows "Number_at toNumber bs idx = Fin (rs ! idx)"
proof -
  have "length rs = length bs" using assms(1) by (metis length_map)
  moreover have "toNumber (bs ! idx) = map toNumber bs ! idx" using assms(2) by simp
  ultimately show ?thesis using assms by (simp add: Number_at_def js_at_def)
qed

lemma changeEntries_finite:
  assumes "buy_prices trends = Some bs" "length bs = length ds" "map toNumber bs = map Fin rs"
  shows "map_indexed (changeEntry toNumber trends) ds =
           Normal (map (\<lambda>idx. Some \<lparr>date = ds ! idx, buy = Fin (rs ! idx)\<rparr>) [0..<length ds])"
proof -
  have "map (\<lambda>idx. changeEntry toNumber trends (ds ! idx) idx) [0..<length ds] =
        map (\<lambda>idx. Normal (Some \<lparr>date = ds ! idx, buy = Fin (rs ! idx)\<rparr>)) [0..<length ds]"
    using assms by (auto simp: changeEntry_def Number_at_finite)
  then show ?thesis
    unfolding map_indexed_def by (simp only: collect_map_Normal)
qed

lemma changesLoop_eq:
  "changesLoop h es idx (cs, ls) =
     (cs @ map (\<lambda>k. js_sub (buy (es ! k)) (buy (es ! (k - 1)))) [idx..<length es],
      ls @ map (\<lambda>k. formatDateLabel h (date (es ! k))) [idx..<length es])"
proof (induction h es idx "(cs, ls)" arbitrary: cs ls rule: changesLoop.induct)
  case (1 h es idx cs ls)
  show ?case
  proof (cases "idx < length es")
    case True
    then show ?thesis
      using "1.hyps"[OF True refl refl]
      by (subst changesLoop.simps) (simp add: Let_def upt_conv_Cons)
  next
    case False
    then show ?thesis by (subst changesLoop.simps) simp
  qed
qed

lemma changes_nth:
  "length (fst (changesLoop h es 1 ([], []))) = length es - 1
   \<and> (\<forall>k<length es - 1. fst (changesLoop h es 1 ([], [])) ! k = js_sub (buy (es ! (k + 1))) (buy (es ! k)))"
  by (simp add: changesLoop_eq)

lemma fetchChangeData_entries:
  assumes "dates trends = Some ds"
    and "map_indexed (changeEntry toNumber trends) ds = Normal es"
  shows "fetchChangeData h toNumber (Resolved (Some trends)) st =
     (if length ds < 2 \<or> length (filter_Boolean es) < 2 then
        st\<lparr>loading := False, error := None, chartData := None, stats := None\<rparr>
      else
        st\<lparr>loading := False, error := None,
           stats := Some \<lparr>
             latestChange = or_null (js_at (fst (changesLoop h (filter_Boolean es) 1 ([], [])))
               (int (length (fst (changesLoop h (filter_Boolean es) 1 ([], [])))) - 1)),
             maxGain = Math_max (fst (changesLoop h (filter_Boolean es) 1 ([], []))),
             maxDrop = Math_min (fst (changesLoop h (filter_Boolean es) 1 ([], []))),
             averageChange = js_div (js_sum (fst (changesLoop h (filter_Boolean es) 1 ([], []))))
               (js_length (fst (changesLoop h (filter_Boolean es) 1 ([], []))))\<rparr>,
           chartData := Some \<lparr>
             labels = snd (changesLoop h (filter_Boolean es) 1 ([], [])),
             data = map (\<lambda>v. js_div v (Fin 1000000))
               (fst (changesLoop h (filter_Boolean es) 1 ([], [])))\<rparr>\<rparr>)"
  using assms
  by (simp add: fetchChangeData_def Let_def split: prod.splits)

text \<open>
  C6. On a payload of \<open>n\<close> dates and \<open>n\<close> buy prices \<open>v\<close> that all convert to finite
  numbers, the loop's sequence of changes has length \<open>n - 1\<close> and entry
  \<open>v[k + 1] - v[k]\<close> at every index \<open>k\<close>; for \<open>n \<ge> 2\<close> the chart holds that sequence
  (in millions) and stats are set; for \<open>n < 2\<close> chart and stats are cleared and no error
  is set: there is no delta sequence.
\<close>

theorem dailyDeltas_sequence:
  assumes "dates trends = Some ds" and "buy_prices trends = Some bs"
    and "length bs = length ds" and "map toNumber bs = map Fin v"
    and "es = map (\<lambda>idx. \<lparr>date = ds ! idx, buy = Fin (v ! idx)\<rparr>) [0..<length ds]"
    and "changes = fst (changesLoop h es 1 ([], []))"
    and "out = fetchChangeData h toNumber (Resolved (Some trends)) st"
  shows "length changes = length v - 1
     \<and> (\<forall>k<length v - 1. changes ! k = Fin (v ! (k + 1) - v ! k))
     \<and> (2 \<le> length v \<longrightarrow>
          (\<exists>c. chartData out = Some c \<and> data c = map (\<lambda>x. js_div x (Fin 1000000)) changes)
          \<and> stats out \<noteq> None \<and> error out = None)
     \<and> (length v < 2 \<longrightarrow> chartData out = None \<and> stats out = None \<and> error out = None)"
proof -
  have n: "length v = length ds"
    using assms(3,4) by (metis length_map)
  have len_es: "length es = length v"
    by (simp add: assms(5) n)
  have norm: "map_indexed (changeEntry toNumber trends) ds =
      Normal (map (\<lambda>idx. Some \<lparr>date = ds ! idx, buy = Fin (v ! idx)\<rparr>) [0..<length ds])"
    using assms(2,3,4) by (rule changeEntries_finite)
  have fb: "filter_Boolean (map (\<lambda>idx. Some \<lparr>date = ds ! idx, buy = Fin (v ! idx)\<rparr>) [0..<length ds]) = es"
    unfolding assms(5) by (rule filter_Boolean_Some)
  have c1: "length changes = length v - 1"
    using changes_nth[of h es] by (simp add: assms(6) len_es)
  have c2: "\<forall>k<length v - 1. changes ! k = Fin (v ! (k + 1) - v ! k)"
    using changes_nth[of h es] by (auto simp: assms(6) len_es assms(5) n js_sub_def)
  have o: "out = (if length ds < 2 \<or> length es < 2 then
        st\<lparr>loading := False, error := None, chartData := None, stats := None\<rparr>
      else
        st\<lparr>loading := False, error := None,
           stats := Some \<lparr>
             latestChange = or_null (js_at changes (int (length changes) - 1)),
             maxGain = Math_max changes,
             maxDrop = Math_min changes,
             averageChange = js_div (js_sum changes) (js_length changes)\<rparr>,
           chartData := Some \<lparr>
             labels = snd (changesLoop h es 1 ([], [])),
             data = map (\<lambda>v. js_div v (Fin 1000000)) changes\<rparr>\<rparr>)"
    unfolding assms(7) fetchChangeData_entries[OF assms(1) norm] fb assms(6) ..
  show ?thesis
    using c1 c2 by (simp add: o len_es n)
qed

theorem dailyDeltas_sequence_witness:
  "map (\<lambda>x. x) [Fin 100, Fin 105, Fin 120] = map Fin [100, 105, 120]
   \<and> fst (changesLoop utc_host
        [\<lparr>date = ''2025-01-01'', buy = Fin 100\<rparr>, \<lparr>date = ''2025-01-02'', buy = Fin 105\<rparr>,
         \<lparr>date = ''2025-01-03'', buy = Fin 120\<rparr>] 1 ([], [])) = [Fin 5, Fin 15]
   \<and> (case chartData (fetchChangeData utc_host (\<lambda>x. x)
          (Resolved (Some \<lparr>dates = Some [''2025-01-01'', ''2025-01-02'', ''2025-01-03''],
             buy_prices = Some [Fin 100, Fin 105, Fin 120], sell_prices = None\<rparr>))
          \<lparr>chartData = None, stats = None, error = None, loading = False\<rparr>) of
        Some c \<Rightarrow> data c = [Fin (5 / 1000000), Fin (15 / 1000000)]
      | None \<Rightarrow> False)
   \<and> chartData (fetchChangeData utc_host (\<lambda>x. x)
          (Resolved (Some \<lparr>dates = Some [''2025-01-01''],
             buy_prices = Some [Fin 100], sell_prices = None\<rparr>))
          \<lparr>chartData = Some \<lparr>labels = [''02/01/2025''], data = [Fin 1]\<rparr>, stats = None,
           error = None, loading = False\<rparr>) = None"
proof -
  let ?es = "[\<lparr>date = ''2025-01-01'', buy = Fin 100\<rparr>, \<lparr>date = ''2025-01-02'', buy = Fin 105\<rparr>,
         \<lparr>date = ''2025-01-03'', buy = Fin 120\<rparr>]"
  let ?t3 = "\<lparr>dates = Some [''2025-01-01'', ''2025-01-02'', ''2025-01-03''],
             buy_prices = Some [Fin 100, Fin 105, Fin 120], sell_prices = None\<rparr> :: jsnum trends"
  let ?t1 = "\<lparr>dates = Some [''2025-01-01''],
             buy_prices = Some [Fin 100], sell_prices = None\<rparr> :: jsnum trends"
  let ?st = "\<lparr>chartData = None, stats = None, error = None, loading = False\<rparr> :: (chart, change_stats) view"
  let ?st' = "\<lparr>chartData = Some \<lparr>labels = [''02/01/2025''], data = [Fin 1]\<rparr>, stats = None,
           error = None, loading = False\<rparr> :: (chart, change_stats) view"
  have m3: "map (\<lambda>x. x) [Fin 100, Fin 105, Fin 120] = map Fin [100, 105, 120]" by simp
  have e3: "?es = map (\<lambda>idx. \<lparr>date = [''2025-01-01'', ''2025-01-02'', ''2025-01-03''] ! idx,
       buy = Fin ([100, 105, 120] ! idx)\<rparr>) [0..<length [''2025-01-01'', ''2025-01-02'', ''2025-01-03'']]"
    by (simp add: upt_conv_Cons)
  note t3 = dailyDeltas_sequence [of ?t3 _ _ "\<lambda>x. x" "[100, 105, 120]" ?es _ utc_host _ ?st,
      OF _ _ _ m3 e3 refl refl]
  have ch: "fst (changesLoop utc_host ?es 1 ([], [])) = [Fin 5, Fin 15]"
  proof (rule nth_equalityI)
    show "length (fst (changesLoop utc_host ?es 1 ([], []))) = length [Fin 5, Fin 15]"
      using t3 by simp
    fix i assume "i < length (fst (changesLoop utc_host ?es 1 ([], [])))"
    then have "i < 2" using t3 by simp
    then have "i = 0 \<or> i = 1" by auto
    then show "fst (changesLoop utc_host ?es 1 ([], [])) ! i = [Fin 5, Fin 15] ! i"
      using t3 by auto
  qed
  have c3: "case chartData (fetchChangeData utc_host (\<lambda>x. x) (Resolved (Some ?t3)) ?st) of
        Some c \<Rightarrow> data c = [Fin (5 / 1000000), Fin (15 / 1000000)] | None \<Rightarrow> False"
    using t3 ch by auto
  have m1: "map (\<lambda>x. x) [Fin 100] = map Fin [100]" by simp
  have e1: "[\<lparr>date = ''2025-01-01'', buy = Fin 100\<rparr>] = map (\<lambda>idx. \<lparr>date = [''2025-01-01''] ! idx,
       buy = Fin ([100] ! idx)\<rparr>) [0..<length [''2025-01-01'']]"
    by simp
  note t1 = dailyDeltas_sequence [of ?t1 _ _ "\<lambda>x. x" "[100]" _ _ utc_host _ ?st',
      OF _ _ _ m1 e1 refl refl]
  have c1: "chartData (fetchChangeData utc_host (\<lambda>x. x) (Resolved (Some ?t1)) ?st') = None"
    using t1 by simp
  show ?thesis using m3 ch c3 c1 by simp
qed

text \<open>
  C7. The latest change is read as \<open>changes[changes.length - 1] || null\<close>. On buy prices
  100, 105, 105 the changes are 5 and 0, and the stats hold \<open>null\<close> as latest change
  rather than the last element 0; maximum, minimum and mean are those of the sequence.
\<close>

theorem latestChange_zero_is_null:
  "stats (fetchChangeData utc_host (\<lambda>x. x)
     (Resolved (Some \<lparr>dates = Some [''2025-01-01'', ''2025-01-02'', ''2025-01-03''],
        buy_prices = Some [Fin 100, Fin 105, Fin 105], sell_prices = None\<rparr>))
     \<lparr>chartData = None, stats = None, error = None, loading = False\<rparr>)
   = Some \<lparr>latestChange = None, maxGain = Fin 5, maxDrop = Fin 0, averageChange = Fin (5 / 2)\<rparr>
   \<and> chartData (fetchChangeData utc_host (\<lambda>x. x)
     (Resolved (Some \<lparr>dates = Some [''2025-01-01'', ''2025-01-02'', ''2025-01-03''],
        buy_prices = Some [Fin 100, Fin 105, Fin 105], sell_prices = None\<rparr>))
     \<lparr>chartData = None, stats = None, error = None, loading = False\<rparr>)
   = Some \<lparr>labels = [''02/01/2025'', ''03/01/2025''], data = [Fin (5 / 1000000), Fin 0]\<rparr>"
proof -
  let ?t = "\<lparr>dates = Some [''2025-01-01'', ''2025-01-02'', ''2025-01-03''],
        buy_prices = Some [Fin 100, Fin 105, Fin 105], sell_prices = None\<rparr> :: jsnum trends"
  have norm: "map_indexed (changeEntry (\<lambda>x. x) ?t) [''2025-01-01'', ''2025-01-02'', ''2025-01-03''] =
      Normal [Some \<lparr>date = ''2025-01-01'', buy = Fin 100\<rparr>, Some \<lparr>date = ''2025-01-02'', buy = Fin 105\<rparr>,
              Some \<lparr>date = ''2025-01-03'', buy = Fin 105\<rparr>]"
    by (simp add: map_indexed_def changeEntry_def Number_at_def js_at_def upt_conv_Cons)
  have fb: "filter_Boolean [Some \<lparr>date = ''2025-01-01'', buy = Fin 100\<rparr>, Some \<lparr>date = ''2025-01-02'', buy = Fin 105\<rparr>,
              Some \<lparr>date = ''2025-01-03'', buy = Fin 105\<rparr>] =
      [\<lparr>date = ''2025-01-01'', buy = Fin 100\<rparr>, \<lparr>date = ''2025-01-02'', buy = Fin 105\<rparr>,
       \<lparr>date = ''2025-01-03'', buy = Fin 105\<rparr>]"
    by (simp add: filter_Boolean_def)
  have lp: "changesLoop utc_host
      [\<lparr>date = ''2025-01-01'', buy = Fin 100\<rparr>, \<lparr>date = ''2025-01-02'', buy = Fin 105\<rparr>,
       \<lparr>date = ''2025-01-03'', buy = Fin 105\<rparr>] 1 ([], []) =
      ([Fin 5, Fin 0], [''02/01/2025'', ''03/01/2025''])"
    by (simp add: changesLoop_eq upt_conv_Cons js_sub_def utc_host_def utc_formatDateLabel_def
          iso_date_def digit_value_def days_in_month_def)
  have d: "dates ?t = Some [''2025-01-01'', ''2025-01-02'', ''2025-01-03'']" by simp
  show ?thesis
    unfolding fetchChangeData_entries[OF d norm] fb lp
    by (simp add: or_null_def js_at_def js_truthy_def Math_max_def Math_min_def js_max2_def js_min2_def
          js_sum_def js_length_def)
qed

section \<open>Properties of the spread trend\<close>

lemma js_max2_Fin: "js_max2 (Fin a) (Fin b) = Fin (max a b)"
  by (simp add: js_max2_def max_def)

lemma js_min2_Fin: "js_min2 (Fin a) (Fin b) = Fin (min a b)"
  by (auto simp: js_min2_def min_def)

lemma foldl_js_max2_Fin: "foldl js_max2 (Fin a) (map Fin rs) = Fin (fold max rs a)"
  by (induction rs arbitrary: a) (simp_all add: js_max2_Fin max.commute)

lemma foldl_js_min2_Fin: "foldl js_min2 (Fin a) (map Fin rs) = Fin (fold min rs a)"
  by (induction rs arbitrary: a) (simp_all add: js_min2_Fin min.commute)

lemma Math_max_Fin:
  assumes "rs \<noteq> []"
  shows "Math_max (map Fin rs) = Fin (Max (set rs))"
proof -
  obtain a list where rs: "rs = a # list" using assms by (cases rs) auto
  have "Math_max (map Fin rs) = Fin (fold max list a)"
    by (simp add: rs Math_max_def js_max2_def foldl_js_max2_Fin)
  also have "fold max list a = Max (set rs)"
    unfolding rs by (rule Max.set_eq_fold[symmetric])
  finally show ?thesis .
qed

lemma Math_min_Fin:
  assumes "rs \<noteq> []"
  shows "Math_min (map Fin rs) = Fin (Min (set rs))"
proof -
  obtain a list where rs: "rs = a # list" using assms by (cases rs) auto
  have "Math_min (map Fin rs) = Fin (fold min list a)"
    by (simp add: rs Math_min_def js_min2_def foldl_js_min2_Fin)
  also have "fold min list a = Min (set rs)"
    unfolding rs by (rule Min.set_eq_fold[symmetric])
  finally show ?thesis .
qed

lemma combinedEntries_finite:
  assumes "buy_prices trends = Some bs" "sell_prices trends = Some ss"
    and "length bs = length ds" "length ss = length ds"
    and "map toNumber bs = map Fin b" "map toNumber ss = map Fin s"
  shows "map_indexed (combinedEntry toNumber trends) ds =
           Normal (map (\<lambda>idx. Some \<lparr>date = ds ! idx, spread = Fin (s ! idx - b ! idx)\<rparr>) [0..<length ds])"
proof -
  have "map (\<lambda>idx. combinedEntry toNumber trends (ds ! idx) idx) [0..<length ds] =
        map (\<lambda>idx. Normal (Some \<lparr>date = ds ! idx, spread = Fin (s ! idx - b ! idx)\<rparr>)) [0..<length ds]"
    using assms by (auto simp: combinedEntry_def Number_at_finite js_sub_def)
  then show ?thesis
    unfolding map_indexed_def by (simp only: collect_map_Normal)
qed

lemma fetchSpreadData_combined:
  assumes "dates trends = Some ds"
    and "map_indexed (combinedEntry toNumber trends) ds = Normal cs"
  shows "fetchSpreadData h toNumber (Resolved (Some trends)) st =
     (if length ds = 0 \<or> length (filter_Boolean cs) = 0 then
        st\<lparr>loading := False, error := None, chartData := None, stats := None\<rparr>
      else
        st\<lparr>loading := False, error := None,
           stats := Some \<lparr>
             currentSpread = js_at (map spread (filter_Boolean cs))
               (int (length (map spread (filter_Boolean cs))) - 1),
             maxSpread = Math_max (map spread (filter_Boolean cs)),
             minSpread = Math_min (map spread (filter_Boolean cs)),
             averageSpread = js_div (js_sum (map spread (filter_Boolean cs)))
               (js_length (map spread (filter_Boolean cs))),
             latestDate = date (filter_Boolean cs ! (length (filter_Boolean cs) - 1))\<rparr>,
           chartData := Some \<lparr>
             labels = map (\<lambda>entry. formatDateLabel h (date entry)) (filter_Boolean cs),
             data = map (\<lambda>v. js_div v (Fin 1000000)) (map spread (filter_Boolean cs))\<rparr>\<rparr>)"
  using assms
  by (simp add: fetchSpreadData_def Let_def)

text \<open>
  C8. On a payload of \<open>n\<close> dates with buy prices \<open>b\<close> and sell prices \<open>s\<close> that all
  convert to finite numbers, the spread sequence has length \<open>n\<close> and entry
  \<open>s[k] - b[k]\<close> at every index, below zero where \<open>s[k] < b[k]\<close>; for \<open>n > 0\<close> the chart
  holds that sequence (in millions) and the summary is its last element, its maximum, its
  minimum and its mean. On the empty payload chart and stats are cleared.
\<close>

theorem spreadSeries_pointwise:
  assumes "dates trends = Some ds"
    and "buy_prices trends = Some bs" and "sell_prices trends = Some ss"
    and "length bs = length ds" and "length ss = length ds"
    and "map toNumber bs = map Fin b" and "map toNumber ss = map Fin s"
    and "out = fetchSpreadData h toNumber (Resolved (Some trends)) st"
  shows "\<exists>cs. map_indexed (combinedEntry toNumber trends) ds = Normal cs
     \<and> length (map spread (filter_Boolean cs)) = length ds
     \<and> (\<forall>k<length ds. map spread (filter_Boolean cs) ! k = Fin (s ! k - b ! k))
     \<and> (\<forall>k<length ds. s ! k < b ! k \<longrightarrow> js_lt (map spread (filter_Boolean cs) ! k) (Fin 0))
     \<and> (ds \<noteq> [] \<longrightarrow>
          chartData out = Some \<lparr>labels = map (formatDateLabel h) ds,
            data = map (\<lambda>x. js_div x (Fin 1000000)) (map spread (filter_Boolean cs))\<rparr>
        \<and> stats out = Some \<lparr>
            currentSpread = Some (Fin (s ! (length ds - 1) - b ! (length ds - 1))),
            maxSpread = Fin (Max ((\<lambda>k. s ! k - b ! k) ` {..<length ds})),
            minSpread = Fin (Min ((\<lambda>k. s ! k - b ! k) ` {..<length ds})),
            averageSpread = Fin ((\<Sum>k<length ds. s ! k - b ! k) / real (length ds)),
            latestDate = ds ! (length ds - 1)\<rparr>
        \<and> error out = None)
     \<and> (ds = [] \<longrightarrow> chartData out = None \<and> stats out = None)"
proof -
  let ?d = "map (\<lambda>k. s ! k - b ! k) [0..<length ds]"
  let ?cs = "map (\<lambda>idx. Some \<lparr>date = ds ! idx, spread = Fin (s ! idx - b ! idx)\<rparr>) [0..<length ds]"
  have norm: "map_indexed (combinedEntry toNumber trends) ds = Normal ?cs"
    using assms(2-7) by (rule combinedEntries_finite)
  have fb: "filter_Boolean ?cs = map (\<lambda>idx. \<lparr>date = ds ! idx, spread = Fin (s ! idx - b ! idx)\<rparr>) [0..<length ds]"
    by (rule filter_Boolean_Some)
  have sp: "map spread (filter_Boolean ?cs) = map Fin ?d"
    unfolding fb by simp
  have dts: "map (\<lambda>entry. formatDateLabel h (date entry)) (filter_Boolean ?cs) = map (formatDateLabel h) ds"
    unfolding fb by (intro nth_equalityI) simp_all
  have set_d: "set ?d = (\<lambda>k. s ! k - b ! k) ` {..<length ds}"
    by (simp add: atLeast0LessThan)
  have sum_d: "sum_list ?d = (\<Sum>k<length ds. s ! k - b ! k)"
    by (simp add: sum_list_sum_nth atLeast0LessThan)
  have o: "ds \<noteq> [] \<Longrightarrow> out = st\<lparr>loading := False, error := None,
           stats := Some \<lparr>
             currentSpread = Some (Fin (s ! (length ds - 1) - b ! (length ds - 1))),
             maxSpread = Fin (Max ((\<lambda>k. s ! k - b ! k) ` {..<length ds})),
             minSpread = Fin (Min ((\<lambda>k. s ! k - b ! k) ` {..<length ds})),
             averageSpread = Fin ((\<Sum>k<length ds. s ! k - b ! k) / real (length ds)),
             latestDate = ds ! (length ds - 1)\<rparr>,
           chartData := Some \<lparr>labels = map (formatDateLabel h) ds,
             data = map (\<lambda>x. js_div x (Fin 1000000)) (map Fin ?d)\<rparr>\<rparr>"
  proof -
    assume ne: "ds \<noteq> []"
    then have dne: "?d \<noteq> []" by simp
    have cur: "js_at (map Fin ?d) (int (length (map Fin ?d)) - 1) = Some (Fin (s ! (length ds - 1) - b ! (length ds - 1)))"
      using ne by (simp add: js_at_def nat_diff_distrib')
    have avg: "js_div (js_sum (map Fin ?d)) (js_length (map Fin ?d)) = Fin ((\<Sum>k<length ds. s ! k - b ! k) / real (length ds))"
      unfolding js_sum_Fin sum_d js_length_def using ne by simp
    have ld: "date (filter_Boolean ?cs ! (length (filter_Boolean ?cs) - 1)) = ds ! (length ds - 1)"
      unfolding fb using ne by simp
    have lfb: "length (filter_Boolean ?cs) \<noteq> 0" unfolding fb using ne by simp
    show ?thesis
      unfolding assms(8) fetchSpreadData_combined[OF assms(1) norm] dts ld
      unfolding sp cur avg Math_max_Fin[OF dne] Math_min_Fin[OF dne] set_d
      using ne lfb by simp
  qed
  show ?thesis
  proof (intro exI[of _ ?cs] conjI impI)
    show "map_indexed (combinedEntry toNumber trends) ds = Normal ?cs" by (rule norm)
    show "length (map spread (filter_Boolean ?cs)) = length ds" unfolding sp by simp
    show "\<forall>k<length ds. map spread (filter_Boolean ?cs) ! k = Fin (s ! k - b ! k)"
      unfolding sp by simp
    show "\<forall>k<length ds. s ! k < b ! k \<longrightarrow> js_lt (map spread (filter_Boolean ?cs) ! k) (Fin 0)"
      unfolding sp by simp
  next
    assume ne: "ds \<noteq> []"
    show "chartData out = Some \<lparr>labels = map (formatDateLabel h) ds,
            data = map (\<lambda>x. js_div x (Fin 1000000)) (map spread (filter_Boolean ?cs))\<rparr>"
      unfolding sp o[OF ne] by simp
    show "stats out = Some \<lparr>
            currentSpread = Some (Fin (s ! (length ds - 1) - b ! (length ds - 1))),
            maxSpread = Fin (Max ((\<lambda>k. s ! k - b ! k) ` {..<length ds})),
            minSpread = Fin (Min ((\<lambda>k. s ! k - b ! k) ` {..<length ds})),
            averageSpread = Fin ((\<Sum>k<length ds. s ! k - b ! k) / real (length ds)),
            latestDate = ds ! (length ds - 1)\<rparr>"
      unfolding o[OF ne] by simp
    show "error out = None"
      unfolding o[OF ne] by simp
  next
    assume "ds = []"
    then show "chartData out = None" "stats out = None"
      unfolding assms(8) fetchSpreadData_combined[OF assms(1) norm] by simp_all
  qed
qed

theorem spreadSeries_pointwise_witness:
  "map (\<lambda>x. x) [Fin 100, Fin 120] = map Fin [100, 120]
   \<and> map (\<lambda>x. x) [Fin 110, Fin 115] = map Fin [110, 115]
   \<and> (case stats (fetchSpreadData utc_host (\<lambda>x. x)
          (Resolved (Some \<lparr>dates = Some [''2025-01-01'', ''2025-01-02''],
             buy_prices = Some [Fin 100, Fin 120], sell_prices = Some [Fin 110, Fin 115]\<rparr>))
          \<lparr>chartData = None, stats = None, error = None, loading = False\<rparr>) of
        Some s \<Rightarrow> currentSpread s = Some (Fin (- 5)) \<and> maxSpread s = Fin 10
                \<and> minSpread s = Fin (- 5) \<and> averageSpread s = Fin (5 / 2)
      | None \<Rightarrow> False)
   \<and> (case chartData (fetchSpreadData utc_host (\<lambda>x. x)
          (Resolved (Some \<lparr>dates = Some [''2025-01-01'', ''2025-01-02''],
             buy_prices = Some [Fin 100, Fin 120], sell_prices = Some [Fin 110, Fin 115]\<rparr>))
          \<lparr>chartData = None, stats = None, error = None, loading = False\<rparr>) of
        Some c \<Rightarrow> length (data c) = 2 \<and> data c ! 0 = Fin (10 / 1000000)
                \<and> data c ! 1 = Fin (- 5 / 1000000)
      | None \<Rightarrow> False)"
proof -
  let ?t = "\<lparr>dates = Some [''2025-01-01'', ''2025-01-02''],
             buy_prices = Some [Fin 100, Fin 120], sell_prices = Some [Fin 110, Fin 115]\<rparr> :: jsnum trends"
  let ?st = "\<lparr>chartData = None, stats = None, error = None, loading = False\<rparr> :: (chart, spread_stats) view"
  let ?out = "fetchSpreadData utc_host (\<lambda>x. x) (Resolved (Some ?t)) ?st"
  have mb: "map (\<lambda>x. x) [Fin 100, Fin 120] = map Fin [100, 120]" by simp
  have ms: "map (\<lambda>x. x) [Fin 110, Fin 115] = map Fin [110, 115]" by simp
  let ?ds = "[''2025-01-01'', ''2025-01-02'']"
  let ?b = "[100, 120] :: real list"
  let ?s = "[110, 115] :: real list"
  have h1: "dates ?t = Some ?ds" and h2: "buy_prices ?t = Some [Fin 100, Fin 120]"
    and h3: "sell_prices ?t = Some [Fin 110, Fin 115]"
    and h4: "length [Fin 100, Fin 120 :: jsnum] = length ?ds"
    and h5: "length [Fin 110, Fin 115 :: jsnum] = length ?ds"
    by simp_all
  from spreadSeries_pointwise [of ?t ?ds "[Fin 100, Fin 120]" "[Fin 110, Fin 115]" "\<lambda>x. x"
      ?b ?s ?out utc_host ?st, OF h1 h2 h3 h4 h5 mb ms refl]
  have "\<exists>cs. map_indexed (combinedEntry (\<lambda>x. x) ?t) ?ds = Normal cs
     \<and> length (map spread (filter_Boolean cs)) = length ?ds
     \<and> (\<forall>k<length ?ds. map spread (filter_Boolean cs) ! k = Fin (?s ! k - ?b ! k))
     \<and> (\<forall>k<length ?ds. ?s ! k < ?b ! k \<longrightarrow> js_lt (map spread (filter_Boolean cs) ! k) (Fin 0))
     \<and> (?ds \<noteq> [] \<longrightarrow>
          chartData ?out = Some \<lparr>labels = map (formatDateLabel utc_host) ?ds,
            data = map (\<lambda>x. js_div x (Fin 1000000)) (map spread (filter_Boolean cs))\<rparr>
        \<and> stats ?out = Some \<lparr>
            currentSpread = Some (Fin (?s ! (length ?ds - 1) - ?b ! (length ?ds - 1))),
            maxSpread = Fin (Max ((\<lambda>k. ?s ! k - ?b ! k) ` {..<length ?ds})),
            minSpread = Fin (Min ((\<lambda>k. ?s ! k - ?b ! k) ` {..<length ?ds})),
            averageSpread = Fin ((\<Sum>k<length ?ds. ?s ! k - ?b ! k) / real (length ?ds)),
            latestDate = ?ds ! (length ?ds - 1)\<rparr>
        \<and> error ?out = None)
     \<and> (?ds = [] \<longrightarrow> chartData ?out = None \<and> stats ?out = None)" .
  then obtain cs where a: "map_indexed (combinedEntry (\<lambda>x. x) ?t) ?ds = Normal cs
     \<and> length (map spread (filter_Boolean cs)) = length ?ds
     \<and> (\<forall>k<length ?ds. map spread (filter_Boolean cs) ! k = Fin (?s ! k - ?b ! k))
     \<and> (\<forall>k<length ?ds. ?s ! k < ?b ! k \<longrightarrow> js_lt (map spread (filter_Boolean cs) ! k) (Fin 0))
     \<and> (?ds \<noteq> [] \<longrightarrow>
          chartData ?out = Some \<lparr>labels = map (formatDateLabel utc_host) ?ds,
            data = map (\<lambda>x. js_div x (Fin 1000000)) (map spread (filter_Boolean cs))\<rparr>
        \<and> stats ?out = Some \<lparr>
            currentSpread = Some (Fin (?s ! (length ?ds - 1) - ?b ! (length ?ds - 1))),
            maxSpread = Fin (Max ((\<lambda>k. ?s ! k - ?b ! k) ` {..<length ?ds})),
            minSpread = Fin (Min ((\<lambda>k. ?s ! k - ?b ! k) ` {..<length ?ds})),
            averageSpread = Fin ((\<Sum>k<length ?ds. ?s ! k - ?b ! k) / real (length ?ds)),
            latestDate = ?ds ! (length ?ds - 1)\<rparr>
        \<and> error ?out = None)
     \<and> (?ds = [] \<longrightarrow> chartData ?out = None \<and> stats ?out = None)" ..
  have ne: "?ds \<noteq> []" by simp
  note len = a [THEN conjunct2, THEN conjunct1]
  note nth = a [THEN conjunct2, THEN conjunct2, THEN conjunct1]
  note res = a [THEN conjunct2, THEN conjunct2, THEN conjunct2, THEN conjunct2, THEN conjunct1,
      THEN mp, OF ne]
  note ch = res [THEN conjunct1]
  note st = res [THEN conjunct2, THEN conjunct1]
  have two: "{..<length ?ds} = {0, 1}" by auto
  have s: "case stats ?out of
        Some s \<Rightarrow> currentSpread s = Some (Fin (- 5)) \<and> maxSpread s = Fin 10
                \<and> minSpread s = Fin (- 5) \<and> averageSpread s = Fin (5 / 2)
      | None \<Rightarrow> False"
    unfolding st two by simp
  have d0: "map spread (filter_Boolean cs) ! 0 = Fin 10" "map spread (filter_Boolean cs) ! 1 = Fin (- 5)"
    using nth by simp_all
  have l2: "length (map spread (filter_Boolean cs)) = 2" using len by simp
  have c: "case chartData ?out of
        Some c \<Rightarrow> length (data c) = 2 \<and> data c ! 0 = Fin (10 / 1000000)
                \<and> data c ! 1 = Fin (- 5 / 1000000)
      | None \<Rightarrow> False"
    unfolding ch using l2 d0 by (simp del: map_map)
  show ?thesis using mb ms s c by blast
qed

section \<open>Properties of the stored series\<close>

lemma filter_Boolean_if:
  "filter_Boolean (map (\<lambda>i. if p i then Some (f i) else None) is) = map f (filter p is)"
  by (induction "is") (simp_all add: filter_Boolean_def)

lemma processedEntries_points:
  assumes "dates trends = Some ds" "buy_prices trends = Some bs"
  shows "processedEntries toNumber (Some trends) =
     Normal (Some (map (\<lambda>idx. \<lparr>date = ds ! idx, buy = Number_at toNumber bs idx,
                sell = (case sell_prices trends of None \<Rightarrow> NaN | Some ss \<Rightarrow> Number_at toNumber ss idx)\<rparr>)
          (filter (\<lambda>idx. js_isFinite (Number_at toNumber bs idx)
                \<and> js_isFinite (case sell_prices trends of None \<Rightarrow> NaN | Some ss \<Rightarrow> Number_at toNumber ss idx))
             [0..<length ds])))"
proof -
  let ?sell = "\<lambda>idx. case sell_prices trends of None \<Rightarrow> NaN | Some ss \<Rightarrow> Number_at toNumber ss idx"
  let ?valid = "\<lambda>idx. js_isFinite (Number_at toNumber bs idx) \<and> js_isFinite (?sell idx)"
  let ?pt = "\<lambda>idx. \<lparr>date = ds ! idx, buy = Number_at toNumber bs idx, sell = ?sell idx\<rparr>"
  have "map (\<lambda>idx. processedEntry toNumber trends (ds ! idx) idx) [0..<length ds] =
        map (\<lambda>idx. Normal (if ?valid idx then Some (?pt idx) else None)) [0..<length ds]"
    using assms(2) by (simp add: processedEntry_def Let_def)
  then have "map_indexed (processedEntry toNumber trends) ds =
        Normal (map (\<lambda>idx. if ?valid idx then Some (?pt idx) else None) [0..<length ds])"
    unfolding map_indexed_def by (simp only: collect_map_Normal)
  then show ?thesis
    using assms(1) by (simp add: processedEntries_def filter_Boolean_if)
qed

lemma fetchData_entries:
  assumes "processedEntries toNumber trends = Normal (Some points)"
  shows "fetchData h toNumber (Resolved trends) st =
     (if points = [] then
        st\<lparr>loading := False, error := Some ''No data available for the selected gold type.'',
           entries := [], chartData := None, stats := None, activePresetDays := None\<rparr>
      else
        st\<lparr>loading := False, error := None, entries := js_sort (byDate h) points,
           chartData := None, stats := None, activePresetDays := None,
           buyDate := keepDate (js_sort (byDate h) points)
             (date (js_sort (byDate h) points ! 0)) (buyDate st),
           sellDate := keepDate (js_sort (byDate h) points)
             (date (js_sort (byDate h) points ! (length (js_sort (byDate h) points) - 1))) (sellDate st)\<rparr>)"
  using assms by (simp add: fetchData_def Let_def)

lemma mset_js_insort: "mset (js_insort cmp x ys) = add_mset x (mset ys)"
  by (induction ys) simp_all

lemma mset_js_sort: "mset (js_sort cmp xs) = mset xs"
  by (induction xs) (simp_all add: js_sort_def mset_js_insort)

lemma js_isFinite_Fin: "js_isFinite a \<Longrightarrow> \<exists>r. a = Fin r"
  by (cases a) simp_all

lemma js_insort_finite_keys:
  assumes "js_isFinite (k x)" and "\<forall>y\<in>set ys. js_isFinite (k y)"
  shows "js_insort (\<lambda>a b. js_sub (k a) (k b)) x ys =
         insort_key (\<lambda>e. case k e of Fin r \<Rightarrow> r | _ \<Rightarrow> 0) x ys"
  using assms(2)
proof (induction ys)
  case Nil
  then show ?case by simp
next
  case (Cons y ys)
  obtain r where r: "k x = Fin r" using assms(1) by (cases "k x") simp_all
  obtain s where s: "k y = Fin s" using Cons.prems by (cases "k y") simp_all
  show ?case using Cons by (auto simp: r s js_sub_def)
qed

lemma js_sort_finite_keys:
  assumes "\<forall>e\<in>set xs. js_isFinite (k e)"
  shows "js_sort (\<lambda>a b. js_sub (k a) (k b)) xs =
         sort_key (\<lambda>e. case k e of Fin r \<Rightarrow> r | _ \<Rightarrow> 0) xs"
  using assms
proof (induction xs)
  case Nil
  then show ?case by (simp add: js_sort_def)
next
  case (Cons x xs)
  then have ih: "js_sort (\<lambda>a b. js_sub (k a) (k b)) xs =
         sort_key (\<lambda>e. case k e of Fin r \<Rightarrow> r | _ \<Rightarrow> 0) xs"
    by simp
  have fin: "\<forall>y\<in>set (sort_key (\<lambda>e. case k e of Fin r \<Rightarrow> r | _ \<Rightarrow> 0) xs). js_isFinite (k y)"
    using Cons.prems by simp
  have "js_sort (\<lambda>a b. js_sub (k a) (k b)) (x # xs) =
        js_insort (\<lambda>a b. js_sub (k a) (k b)) x (js_sort (\<lambda>a b. js_sub (k a) (k b)) xs)"
    by (simp add: js_sort_def)
  also have "\<dots> = insort_key (\<lambda>e. case k e of Fin r \<Rightarrow> r | _ \<Rightarrow> 0) x
        (sort_key (\<lambda>e. case k e of Fin r \<Rightarrow> r | _ \<Rightarrow> 0) xs)"
    unfolding ih using Cons.prems fin by (intro js_insort_finite_keys) simp_all
  finally show ?case by (simp add: sort_key_def)
qed

lemma js_sort_sorted:
  assumes "\<forall>e\<in>set xs. js_isFinite (k e)"
  shows "sorted_wrt (\<lambda>a b. js_le (k a) (k b)) (js_sort (\<lambda>a b. js_sub (k a) (k b)) xs)"
proof -
  let ?f = "\<lambda>e. case k e of Fin r \<Rightarrow> r | _ \<Rightarrow> (0::real)"
  have "sorted (map ?f (sort_key ?f xs))" by (rule sorted_sort_key)
  then have "sorted_wrt (\<lambda>a b. ?f a \<le> ?f b) (sort_key ?f xs)"
    by (simp add: sorted_map)
  moreover have "js_le (k a) (k b)"
    if "a \<in> set (sort_key ?f xs)" "b \<in> set (sort_key ?f xs)" "?f a \<le> ?f b" for a b
  proof -
    have "js_isFinite (k a)" "js_isFinite (k b)" using that(1,2) assms by simp_all
    then obtain r s where r: "k a = Fin r" and s: "k b = Fin s"
      using js_isFinite_Fin by blast
    show ?thesis using that(3) by (auto simp: r s js_le_def)
  qed
  ultimately have "sorted_wrt (\<lambda>a b. js_le (k a) (k b)) (sort_key ?f xs)"
    by (rule sorted_wrt_mono_rel[rotated]) 
  then show ?thesis by (simp add: js_sort_finite_keys[OF assms])
qed

lemma js_sort_stable:
  assumes "\<forall>e\<in>set xs. js_isFinite (k e)"
  shows "filter (\<lambda>e. k e = t) (js_sort (\<lambda>a b. js_sub (k a) (k b)) xs) = filter (\<lambda>e. k e = t) xs"
proof -
  let ?f = "\<lambda>e. case k e of Fin r \<Rightarrow> r | _ \<Rightarrow> (0::real)"
  have eq: "js_sort (\<lambda>a b. js_sub (k a) (k b)) xs = sort_key ?f xs"
    by (rule js_sort_finite_keys[OF assms])
  show ?thesis
  proof (cases t)
    case (Fin r)
    have same: "(k e = t) = (?f e = r)" if "e \<in> set xs" for e
    proof -
      have "js_isFinite (k e)" using that assms by simp
      then obtain s where s: "k e = Fin s" using js_isFinite_Fin by blast
      show ?thesis by (simp add: s Fin)
    qed
    have "filter (\<lambda>e. k e = t) (sort_key ?f xs) = filter (\<lambda>e. ?f e = r) (sort_key ?f xs)"
      by (rule filter_cong) (simp_all add: same)
    also have "\<dots> = filter (\<lambda>e. ?f e = r) xs"
      by (rule sort_key_stable)
    also have "\<dots> = filter (\<lambda>e. k e = t) xs"
      by (rule filter_cong) (simp_all add: same)
    finally show ?thesis by (simp add: eq)
  next
    case PosInf
    have "k e \<noteq> t" if "e \<in> set xs" for e
      using that assms PosInf by (cases "k e") auto
    then show ?thesis by (simp add: eq filter_empty_conv[THEN iffD2])
  next
    case NegInf
    have "k e \<noteq> t" if "e \<in> set xs" for e
      using that assms NegInf by (cases "k e") auto
    then show ?thesis by (simp add: eq filter_empty_conv[THEN iffD2])
  next
    case NaN
    have "k e \<noteq> t" if "e \<in> set xs" for e
      using that assms NaN by (cases "k e") auto
    then show ?thesis by (simp add: eq filter_empty_conv[THEN iffD2])
  qed
qed

lemma js_le_not_positive: "js_le a b \<Longrightarrow> \<not> js_lt (Fin 0) (js_sub a b)"
  by (cases a; cases b) (auto simp: js_sub_def js_le_def)

lemma js_sort_byDate_nondescending:
  assumes "sorted_wrt (\<lambda>a b. js_le (getTime h (date a)) (getTime h (date b))) xs"
  shows "js_sort (byDate h) xs = xs"
proof -
  have "sorted_wrt (\<lambda>a b. \<not> js_lt (Fin 0) (byDate h a b)) xs"
    using assms by (rule sorted_wrt_mono_rel[rotated]) (simp add: byDate_def js_le_not_positive)
  then show ?thesis by (rule js_sort_id)
qed

lemma byDate_keys: "byDate h = (\<lambda>a b. js_sub (getTime h (date a)) (getTime h (date b)))"
  by (intro ext) (simp add: byDate_def)

text \<open>
  C9 (as amended). For a payload of parallel dates, buy prices and sell prices, the
  normalizer keeps exactly the points at the indices whose buy and sell both parse as finite
  numbers, in index order, and \<open>fetchData\<close> then sorts them by date before storing them.
  The stored series always holds the same points, each as many times. When the date of
  every surviving point parses, the stored series is in non-descending date order and the
  points of equal date keep their index order: it is the surviving points stably sorted by
  ascending date. The stored series is the index-order sequence itself whenever that
  sequence is already in non-descending date order, and when no point survives the
  no-data error is set.
\<close>

theorem normalizer_sorts_by_date:
  assumes "dates trends = Some ds" and "buy_prices trends = Some bs"
    and "sellNumber = (\<lambda>idx. case sell_prices trends of None \<Rightarrow> NaN | Some ss \<Rightarrow> Number_at toNumber ss idx)"
    and "points = map (\<lambda>idx. \<lparr>date = ds ! idx, buy = Number_at toNumber bs idx, sell = sellNumber idx\<rparr>)
           (filter (\<lambda>idx. js_isFinite (Number_at toNumber bs idx) \<and> js_isFinite (sellNumber idx))
              [0..<length ds])"
    and "out = fetchData h toNumber (Resolved (Some trends)) st"
  shows "processedEntries toNumber (Some trends) = Normal (Some points)
     \<and> mset (entries out) = mset points
     \<and> ((\<forall>e\<in>set points. js_isFinite (getTime h (date e))) \<longrightarrow>
          sorted_wrt (\<lambda>a b. js_le (getTime h (date a)) (getTime h (date b))) (entries out)
        \<and> (\<forall>t. filter (\<lambda>e. getTime h (date e) = t) (entries out)
               = filter (\<lambda>e. getTime h (date e) = t) points))
     \<and> (sorted_wrt (\<lambda>a b. js_le (getTime h (date a)) (getTime h (date b))) points
          \<longrightarrow> entries out = points)
     \<and> (points = [] \<longrightarrow> error out = Some ''No data available for the selected gold type.'')"
proof -
  have p: "processedEntries toNumber (Some trends) = Normal (Some points)"
    unfolding assms(4) assms(3) using assms(1,2) by (rule processedEntries_points)
  have o: "entries out = js_sort (byDate h) points"
    unfolding assms(5) fetchData_entries[OF p] by (simp add: js_sort_def)
  have e: "points = [] \<Longrightarrow> error out = Some ''No data available for the selected gold type.''"
    unfolding assms(5) fetchData_entries[OF p] by simp
  have m: "mset (entries out) = mset points"
    unfolding o by (rule mset_js_sort)
  have s: "sorted_wrt (\<lambda>a b. js_le (getTime h (date a)) (getTime h (date b))) (entries out)"
    if "\<forall>e\<in>set points. js_isFinite (getTime h (date e))"
    unfolding o byDate_keys using that by (rule js_sort_sorted)
  have f: "filter (\<lambda>e. getTime h (date e) = t) (entries out) = filter (\<lambda>e. getTime h (date e) = t) points"
    if "\<forall>e\<in>set points. js_isFinite (getTime h (date e))" for t
    unfolding o byDate_keys using that by (rule js_sort_stable)
  have i: "entries out = points"
    if "sorted_wrt (\<lambda>a b. js_le (getTime h (date a)) (getTime h (date b))) points"
    unfolding o using that by (rule js_sort_byDate_nondescending)
  show ?thesis
    using p m s f i e by blast
qed

theorem normalizer_sorts_by_date_witness:
  "js_isFinite (getTime utc_host ''2025-01-01'') \<and> js_isFinite (getTime utc_host ''2025-01-02'')
   \<and> entries (fetchData utc_host (\<lambda>x. x)
     (Resolved (Some \<lparr>dates = Some [''2025-01-02'', ''2025-01-01'', ''2025-01-03'', ''2025-01-01''],
        buy_prices = Some [Fin 105, Fin 100, NaN, Fin 101],
        sell_prices = Some [Fin 115, Fin 110, Fin 130, Fin 111]\<rparr>))
     \<lparr>chartData = None, stats = None, error = None, loading = False,
      entries = [], buyDate = [], sellDate = [], activePresetDays = None\<rparr>)
   = [\<lparr>date = ''2025-01-01'', buy = Fin 100, sell = Fin 110\<rparr>,
      \<lparr>date = ''2025-01-01'', buy = Fin 101, sell = Fin 111\<rparr>,
      \<lparr>date = ''2025-01-02'', buy = Fin 105, sell = Fin 115\<rparr>]
   \<and> sorted_wrt (\<lambda>a b. js_le (getTime utc_host (date a)) (getTime utc_host (date b)))
      (entries (fetchData utc_host (\<lambda>x. x)
     (Resolved (Some \<lparr>dates = Some [''2025-01-02'', ''2025-01-01'', ''2025-01-03'', ''2025-01-01''],
        buy_prices = Some [Fin 105, Fin 100, NaN, Fin 101],
        sell_prices = Some [Fin 115, Fin 110, Fin 130, Fin 111]\<rparr>))
     \<lparr>chartData = None, stats = None, error = None, loading = False,
      entries = [], buyDate = [], sellDate = [], activePresetDays = None\<rparr>))
   \<and> filter (\<lambda>e. getTime utc_host (date e) = getTime utc_host ''2025-01-01'')
      (entries (fetchData utc_host (\<lambda>x. x)
     (Resolved (Some \<lparr>dates = Some [''2025-01-02'', ''2025-01-01'', ''2025-01-03'', ''2025-01-01''],
        buy_prices = Some [Fin 105, Fin 100, NaN, Fin 101],
        sell_prices = Some [Fin 115, Fin 110, Fin 130, Fin 111]\<rparr>))
     \<lparr>chartData = None, stats = None, error = None, loading = False,
      entries = [], buyDate = [], sellDate = [], activePresetDays = None\<rparr>))
   = [\<lparr>date = ''2025-01-01'', buy = Fin 100, sell = Fin 110\<rparr>,
      \<lparr>date = ''2025-01-01'', buy = Fin 101, sell = Fin 111\<rparr>]
   \<and> entries (fetchData utc_host (\<lambda>x. x)
     (Resolved (Some \<lparr>dates = Some [''2025-01-01'', ''2025-01-02'', ''2025-01-03''],
        buy_prices = Some [Fin 100, NaN, Fin 120], sell_prices = Some [Fin 110, Fin 115, Fin 130]\<rparr>))
     \<lparr>chartData = None, stats = None, error = None, loading = False,
      entries = [], buyDate = [], sellDate = [], activePresetDays = None\<rparr>)
   = [\<lparr>date = ''2025-01-01'', buy = Fin 100, sell = Fin 110\<rparr>,
      \<lparr>date = ''2025-01-03'', buy = Fin 120, sell = Fin 130\<rparr>]
   \<and> error (fetchData utc_host (\<lambda>x. x)
     (Resolved (Some \<lparr>dates = Some [''2025-01-01''],
        buy_prices = Some [PosInf], sell_prices = Some [Fin 110]\<rparr>))
     \<lparr>chartData = None, stats = None, error = None, loading = False,
      entries = [], buyDate = [], sellDate = [], activePresetDays = None\<rparr>)
   = Some ''No data available for the selected gold type.''"
proof -
  let ?st = "\<lparr>chartData = None, stats = None, error = None, loading = False,
      entries = [], buyDate = [], sellDate = [], activePresetDays = None\<rparr> :: return_view"
  have tm: "getTime utc_host = utc_getTime" by (simp add: utc_host_def)
  have fin: "js_isFinite (getTime utc_host ''2025-01-01'')" "js_isFinite (getTime utc_host ''2025-01-02'')"
    "js_isFinite (getTime utc_host ''2025-01-03'')"
    by (simp_all add: tm utc_getTime_scenario)

  let ?t = "\<lparr>dates = Some [''2025-01-02'', ''2025-01-01'', ''2025-01-03'', ''2025-01-01''],
        buy_prices = Some [Fin 105, Fin 100, NaN, Fin 101],
        sell_prices = Some [Fin 115, Fin 110, Fin 130, Fin 111]\<rparr> :: jsnum trends"
  let ?ds = "[''2025-01-02'', ''2025-01-01'', ''2025-01-03'', ''2025-01-01'']"
  let ?bs = "[Fin 105, Fin 100, NaN, Fin 101]"
  let ?sell = "\<lambda>idx. case sell_prices ?t of None \<Rightarrow> NaN | Some ss \<Rightarrow> Number_at (\<lambda>x. x) ss idx"
  let ?pts = "[\<lparr>date = ''2025-01-02'', buy = Fin 105, sell = Fin 115\<rparr>,
      \<lparr>date = ''2025-01-01'', buy = Fin 100, sell = Fin 110\<rparr>,
      \<lparr>date = ''2025-01-01'', buy = Fin 101, sell = Fin 111\<rparr>]"
  let ?out = "fetchData utc_host (\<lambda>x. x) (Resolved (Some ?t)) ?st"
  have h1: "dates ?t = Some ?ds" and h2: "buy_prices ?t = Some ?bs" by simp_all
  have h4: "?pts = map (\<lambda>idx. \<lparr>date = ?ds ! idx, buy = Number_at (\<lambda>x. x) ?bs idx, sell = ?sell idx\<rparr>)
           (filter (\<lambda>idx. js_isFinite (Number_at (\<lambda>x. x) ?bs idx) \<and> js_isFinite (?sell idx))
              [0..<length ?ds])"
    by (simp add: upt_conv_Cons Number_at_def js_at_def)
  note a = normalizer_sorts_by_date [of ?t ?ds ?bs ?sell "\<lambda>x. x" ?pts ?out utc_host ?st,
      OF h1 h2 refl h4 refl]
  have allfin: "\<forall>e\<in>set ?pts. js_isFinite (getTime utc_host (date e))"
    using fin by simp
  note b = a [THEN conjunct2, THEN conjunct2, THEN conjunct1, THEN mp, OF allfin]
  have srt: "sorted_wrt (\<lambda>a b. js_le (getTime utc_host (date a)) (getTime utc_host (date b))) (entries ?out)"
    using b by (rule conjunct1)
  have stable: "filter (\<lambda>e. getTime utc_host (date e) = getTime utc_host ''2025-01-01'') (entries ?out)
      = [\<lparr>date = ''2025-01-01'', buy = Fin 100, sell = Fin 110\<rparr>,
         \<lparr>date = ''2025-01-01'', buy = Fin 101, sell = Fin 111\<rparr>]"
    using b [THEN conjunct2, THEN spec, of "getTime utc_host ''2025-01-01''"]
    by (simp add: tm utc_getTime_scenario)
  have val: "entries ?out = [\<lparr>date = ''2025-01-01'', buy = Fin 100, sell = Fin 110\<rparr>,
      \<lparr>date = ''2025-01-01'', buy = Fin 101, sell = Fin 111\<rparr>,
      \<lparr>date = ''2025-01-02'', buy = Fin 105, sell = Fin 115\<rparr>]"
    unfolding fetchData_entries [OF a [THEN conjunct1]]
    by (simp add: js_sort_def byDate_def tm utc_getTime_scenario js_sub_def)

  let ?t2 = "\<lparr>dates = Some [''2025-01-01'', ''2025-01-02'', ''2025-01-03''],
        buy_prices = Some [Fin 100, NaN, Fin 120], sell_prices = Some [Fin 110, Fin 115, Fin 130]\<rparr> :: jsnum trends"
  let ?ds2 = "[''2025-01-01'', ''2025-01-02'', ''2025-01-03'']"
  let ?bs2 = "[Fin 100, NaN, Fin 120]"
  let ?sell2 = "\<lambda>idx. case sell_prices ?t2 of None \<Rightarrow> NaN | Some ss \<Rightarrow> Number_at (\<lambda>x. x) ss idx"
  let ?pts2 = "[\<lparr>date = ''2025-01-01'', buy = Fin 100, sell = Fin 110\<rparr>,
      \<lparr>date = ''2025-01-03'', buy = Fin 120, sell = Fin 130\<rparr>]"
  have k1: "dates ?t2 = Some ?ds2" and k2: "buy_prices ?t2 = Some ?bs2" by simp_all
  have k4: "?pts2 = map (\<lambda>idx. \<lparr>date = ?ds2 ! idx, buy = Number_at (\<lambda>x. x) ?bs2 idx, sell = ?sell2 idx\<rparr>)
           (filter (\<lambda>idx. js_isFinite (Number_at (\<lambda>x. x) ?bs2 idx) \<and> js_isFinite (?sell2 idx))
              [0..<length ?ds2])"
    by (simp add: upt_conv_Cons Number_at_def js_at_def)
  have asc: "sorted_wrt (\<lambda>a b. js_le (getTime utc_host (date a)) (getTime utc_host (date b))) ?pts2"
    by (simp add: tm utc_getTime_scenario js_le_def)
  note c = normalizer_sorts_by_date [of ?t2 ?ds2 ?bs2 ?sell2 "\<lambda>x. x" ?pts2 _ utc_host ?st,
      OF k1 k2 refl k4 refl]
  have r: "entries (fetchData utc_host (\<lambda>x. x) (Resolved (Some ?t2)) ?st) = ?pts2"
    using c [THEN conjunct2, THEN conjunct2, THEN conjunct2, THEN conjunct1] asc by blast

  let ?t3 = "\<lparr>dates = Some [''2025-01-01''],
        buy_prices = Some [PosInf], sell_prices = Some [Fin 110]\<rparr> :: jsnum trends"
  let ?sell3 = "\<lambda>idx. case sell_prices ?t3 of None \<Rightarrow> NaN | Some ss \<Rightarrow> Number_at (\<lambda>x. x) ss idx"
  have g1: "dates ?t3 = Some [''2025-01-01'']" and g2: "buy_prices ?t3 = Some [PosInf]" by simp_all
  have g4: "[] = map (\<lambda>idx. \<lparr>date = [''2025-01-01''] ! idx, buy = Number_at (\<lambda>x. x) [PosInf] idx, sell = ?sell3 idx\<rparr>)
           (filter (\<lambda>idx. js_isFinite (Number_at (\<lambda>x. x) [PosInf] idx) \<and> js_isFinite (?sell3 idx))
              [0..<length [''2025-01-01'']])"
    by (simp add: Number_at_def js_at_def)
  note d = normalizer_sorts_by_date [of ?t3 "[''2025-01-01'']" "[PosInf]" ?sell3 "\<lambda>x. x" "[]" _ utc_host ?st,
      OF g1 g2 refl g4 refl]
  have e: "error (fetchData utc_host (\<lambda>x. x) (Resolved (Some ?t3)) ?st)
      = Some ''No data available for the selected gold type.''"
    using d [THEN conjunct2, THEN conjunct2, THEN conjunct2, THEN conjunct2] by blast
  show ?thesis using fin(1,2) val srt stable r e by blast
qed

text \<open>
  C9 (counterexample). A payload whose two dates descend is stored in ascending date
  order, not in the order of its indices.
\<close>

theorem normalizer_sorts_by_date_counterexample:
  "entries (fetchData utc_host (\<lambda>x. x)
     (Resolved (Some \<lparr>dates = Some [''2025-01-02'', ''2025-01-01''],
        buy_prices = Some [Fin 105, Fin 100], sell_prices = Some [Fin 115, Fin 110]\<rparr>))
     \<lparr>chartData = None, stats = None, error = None, loading = False,
      entries = [], buyDate = [], sellDate = [], activePresetDays = None\<rparr>)
   = [\<lparr>date = ''2025-01-01'', buy = Fin 100, sell = Fin 110\<rparr>,
      \<lparr>date = ''2025-01-02'', buy = Fin 105, sell = Fin 115\<rparr>]
   \<and> entries (fetchData utc_host (\<lambda>x. x)
     (Resolved (Some \<lparr>dates = Some [''2025-01-02'', ''2025-01-01''],
        buy_prices = Some [Fin 105, Fin 100], sell_prices = Some [Fin 115, Fin 110]\<rparr>))
     \<lparr>chartData = None, stats = None, error = None, loading = False,
      entries = [], buyDate = [], sellDate = [], activePresetDays = None\<rparr>)
   \<noteq> [\<lparr>date = ''2025-01-02'', buy = Fin 105, sell = Fin 115\<rparr>,
      \<lparr>date = ''2025-01-01'', buy = Fin 100, sell = Fin 110\<rparr>]"
proof -
  let ?t = "\<lparr>dates = Some [''2025-01-02'', ''2025-01-01''],
        buy_prices = Some [Fin 105, Fin 100], sell_prices = Some [Fin 115, Fin 110]\<rparr> :: jsnum trends"
  have p: "processedEntries (\<lambda>x. x) (Some ?t) =
      Normal (Some [\<lparr>date = ''2025-01-02'', buy = Fin 105, sell = Fin 115\<rparr>,
                    \<lparr>date = ''2025-01-01'', buy = Fin 100, sell = Fin 110\<rparr>])"
    by (simp add: processedEntries_def map_indexed_def processedEntry_def Number_at_def js_at_def
          filter_Boolean_def upt_conv_Cons)
  have s: "js_sort (byDate utc_host)
        [\<lparr>date = ''2025-01-02'', buy = Fin 105, sell = Fin 115\<rparr>,
         \<lparr>date = ''2025-01-01'', buy = Fin 100, sell = Fin 110\<rparr>]
      = [\<lparr>date = ''2025-01-01'', buy = Fin 100, sell = Fin 110\<rparr>,
         \<lparr>date = ''2025-01-02'', buy = Fin 105, sell = Fin 115\<rparr>]"
    by (simp add: js_sort_def byDate_def utc_host_def utc_getTime_scenario js_sub_def)
  show ?thesis
    unfolding fetchData_entries[OF p] s by simp
qed

section \<open>Outcomes of the operations\<close>

lemma collect_Throw_first: "collect (Throw # cs) = Throw"
  by simp

lemma map_indexed_Throw:
  assumes "\<And>d idx. f d idx = Throw" and "ds \<noteq> []"
  shows "map_indexed f ds = Throw"
proof -
  have "0 < length ds" using assms(2) by simp
  then have "[0..<length ds] = 0 # [Suc 0..<length ds]"
    by (rule upt_conv_Cons)
  then show ?thesis
    by (simp add: map_indexed_def assms(1))
qed

lemma changeEntries_filter:
  assumes "buy_prices trends = Some bs"
  shows "map_indexed (changeEntry toNumber trends) ds =
     Normal (map (\<lambda>idx. if js_isFinite (Number_at toNumber bs idx)
                         then Some \<lparr>date = ds ! idx, buy = Number_at toNumber bs idx\<rparr> else None)
              [0..<length ds])"
proof -
  have "map (\<lambda>idx. changeEntry toNumber trends (ds ! idx) idx) [0..<length ds] =
        map (\<lambda>idx. Normal (if js_isFinite (Number_at toNumber bs idx)
                         then Some \<lparr>date = ds ! idx, buy = Number_at toNumber bs idx\<rparr> else None))
          [0..<length ds]"
    using assms by (simp add: changeEntry_def Let_def)
  then show ?thesis
    unfolding map_indexed_def by (simp only: collect_map_Normal)
qed

lemma fetchChangeData_outcomes:
  assumes "out = fetchChangeData h toNumber response st"
  shows "((chartData out = None \<and> stats out = None \<and> error out = None) \<longleftrightarrow>
     (case response of
        Rejected \<Rightarrow> False
      | Resolved None \<Rightarrow> True
      | Resolved (Some t) \<Rightarrow>
          (case dates t of
             None \<Rightarrow> True
           | Some ds \<Rightarrow>
               length ds < 2 \<or>
               (case buy_prices t of
                  None \<Rightarrow> False
                | Some bs \<Rightarrow>
                    length (filter (\<lambda>idx. js_isFinite (Number_at toNumber bs idx)) [0..<length ds]) < 2))))
    \<and> ((chartData out = None \<and> stats out = None
          \<and> error out = Some ''Unable to load daily change data right now.'') \<longleftrightarrow>
     (case response of
        Rejected \<Rightarrow> True
      | Resolved None \<Rightarrow> False
      | Resolved (Some t) \<Rightarrow>
          (case dates t of
             None \<Rightarrow> False
           | Some ds \<Rightarrow> 2 \<le> length ds \<and> buy_prices t = None)))
    \<and> ((chartData out \<noteq> None \<and> stats out \<noteq> None \<and> error out = None)
       \<or> (chartData out = None \<and> stats out = None
            \<and> error out = Some ''Unable to load daily change data right now.'')
       \<or> (chartData out = None \<and> stats out = None \<and> error out = None))"
proof (cases response)
  case Rejected
  then show ?thesis by (simp add: assms fetchChangeData_def)
next
  case (Resolved topt)
  show ?thesis
  proof (cases topt)
    case None
    then show ?thesis using Resolved by (simp add: assms fetchChangeData_def)
  next
    case (Some t)
    show ?thesis
    proof (cases "dates t")
      case None
      then show ?thesis using Resolved Some by (simp add: assms fetchChangeData_def)
    next
      case ds: (Some ds)
      show ?thesis
      proof (cases "length ds < 2")
        case True
        then show ?thesis using Resolved Some ds by (simp add: assms fetchChangeData_def)
      next
        case long: False
        then have ne: "ds \<noteq> []" by auto
        show ?thesis
        proof (cases "buy_prices t")
          case None
          have "map_indexed (changeEntry toNumber t) ds = Throw"
            using ne by (intro map_indexed_Throw) (simp_all add: changeEntry_def None)
          then show ?thesis using Resolved Some ds long None
            by (simp add: assms fetchChangeData_def)
        next
          case bs: (Some bs)
          let ?es = "map (\<lambda>idx. if js_isFinite (Number_at toNumber bs idx)
                       then Some \<lparr>date = ds ! idx, buy = Number_at toNumber bs idx\<rparr> else None)
            [0..<length ds]"
          have norm: "map_indexed (changeEntry toNumber t) ds = Normal ?es"
            using bs by (rule changeEntries_filter)
          have len: "length (filter_Boolean ?es) =
              length (filter (\<lambda>idx. js_isFinite (Number_at toNumber bs idx)) [0..<length ds])"
            by (simp add: filter_Boolean_if)
          have o: "out = fetchChangeData h toNumber (Resolved (Some t)) st"
            using assms Resolved Some by simp
          show ?thesis
            unfolding o fetchChangeData_entries[OF ds norm] len[symmetric]
            using Resolved Some ds long bs by (simp add: len)
        qed
      qed
    qed
  qed
qed

lemma combinedEntries_filter:
  assumes "buy_prices trends = Some bs" and "sell_prices trends = Some ss"
  shows "map_indexed (combinedEntry toNumber trends) ds =
     Normal (map (\<lambda>idx. if js_isFinite (Number_at toNumber bs idx) \<and> js_isFinite (Number_at toNumber ss idx)
                         then Some \<lparr>date = ds ! idx,
                                spread = js_sub (Number_at toNumber ss idx) (Number_at toNumber bs idx)\<rparr>
                         else None)
              [0..<length ds])"
proof -
  have "map (\<lambda>idx. combinedEntry toNumber trends (ds ! idx) idx) [0..<length ds] =
        map (\<lambda>idx. Normal (if js_isFinite (Number_at toNumber bs idx) \<and> js_isFinite (Number_at toNumber ss idx)
                         then Some \<lparr>date = ds ! idx,
                                spread = js_sub (Number_at toNumber ss idx) (Number_at toNumber bs idx)\<rparr>
                         else None))
          [0..<length ds]"
    using assms by (simp add: combinedEntry_def Let_def)
  then show ?thesis
    unfolding map_indexed_def by (simp only: collect_map_Normal)
qed

lemma fetchSpreadData_outcomes:
  assumes "out = fetchSpreadData h toNumber response st"
  shows "((chartData out = None \<and> stats out = None \<and> error out = None) \<longleftrightarrow>
     (case response of
        Rejected \<Rightarrow> False
      | Resolved None \<Rightarrow> True
      | Resolved (Some t) \<Rightarrow>
          (case dates t of
             None \<Rightarrow> True
           | Some ds \<Rightarrow>
               ds = [] \<or>
               (case buy_prices t of
                  None \<Rightarrow> False
                | Some bs \<Rightarrow>
                    (case sell_prices t of
                       None \<Rightarrow> False
                     | Some ss \<Rightarrow>
                         filter (\<lambda>idx. js_isFinite (Number_at toNumber bs idx)
                                   \<and> js_isFinite (Number_at toNumber ss idx)) [0..<length ds] = [])))))
    \<and> ((chartData out = None \<and> stats out = None
          \<and> error out = Some ''Unable to load spread trend data right now.'') \<longleftrightarrow>
     (case response of
        Rejected \<Rightarrow> True
      | Resolved None \<Rightarrow> False
      | Resolved (Some t) \<Rightarrow>
          (case dates t of
             None \<Rightarrow> False
           | Some ds \<Rightarrow> ds \<noteq> [] \<and> (buy_prices t = None \<or> sell_prices t = None))))
    \<and> ((chartData out \<noteq> None \<and> stats out \<noteq> None \<and> error out = None)
       \<or> (chartData out = None \<and> stats out = None
            \<and> error out = Some ''Unable to load spread trend data right now.'')
       \<or> (chartData out = None \<and> stats out = None \<and> error out = None))"
proof (cases response)
  case Rejected
  then show ?thesis by (simp add: assms fetchSpreadData_def)
next
  case (Resolved topt)
  show ?thesis
  proof (cases topt)
    case None
    then show ?thesis using Resolved by (simp add: assms fetchSpreadData_def)
  next
    case (Some t)
    show ?thesis
    proof (cases "dates t")
      case None
      then show ?thesis using Resolved Some by (simp add: assms fetchSpreadData_def)
    next
      case ds: (Some ds)
      show ?thesis
      proof (cases "ds = []")
        case True
        then show ?thesis using Resolved Some ds by (simp add: assms fetchSpreadData_def)
      next
        case ne: False
        show ?thesis
        proof (cases "buy_prices t")
          case None
          have "map_indexed (combinedEntry toNumber t) ds = Throw"
            using ne by (intro map_indexed_Throw) (simp_all add: combinedEntry_def None)
          then show ?thesis using Resolved Some ds ne None
            by (simp add: assms fetchSpreadData_def)
        next
          case bs: (Some bs)
          show ?thesis
          proof (cases "sell_prices t")
            case None
            have "map_indexed (combinedEntry toNumber t) ds = Throw"
              using ne by (intro map_indexed_Throw) (simp_all add: combinedEntry_def bs None)
            then show ?thesis using Resolved Some ds ne bs None
              by (simp add: assms fetchSpreadData_def)
          next
            case ss: (Some ss)
            let ?cs = "map (\<lambda>idx. if js_isFinite (Number_at toNumber bs idx) \<and> js_isFinite (Number_at toNumber ss idx)
                         then Some \<lparr>date = ds ! idx,
                                spread = js_sub (Number_at toNumber ss idx) (Number_at toNumber bs idx)\<rparr>
                         else None)
              [0..<length ds]"
            have norm: "map_indexed (combinedEntry toNumber t) ds = Normal ?cs"
              using bs ss by (rule combinedEntries_filter)
            have len: "length (filter_Boolean ?cs) =
                length (filter (\<lambda>idx. js_isFinite (Number_at toNumber bs idx)
                                   \<and> js_isFinite (Number_at toNumber ss idx)) [0..<length ds])"
              by (simp add: filter_Boolean_if)
            have o: "out = fetchSpreadData h toNumber (Resolved (Some t)) st"
              using assms Resolved Some by simp
            show ?thesis
              unfolding o fetchSpreadData_combined[OF ds norm] len
              using Resolved Some ds ne bs ss by simp
          qed
        qed
      qed
    qed
  qed
qed

lemma processedEntries_Throw:
  assumes "dates trends = Some ds" and "ds \<noteq> []" and "buy_prices trends = None"
  shows "processedEntries toNumber (Some trends) = Throw"
proof -
  have "map_indexed (processedEntry toNumber trends) ds = Throw"
    using assms(2) by (intro map_indexed_Throw) (simp_all add: processedEntry_def assms(3))
  then show ?thesis by (simp add: processedEntries_def assms(1))
qed

lemma fetchData_outcomes:
  assumes "out = fetchData h toNumber response st"
  shows "(entries out \<noteq> [] \<and> error out = None)
       \<noteq> (entries out = []
            \<and> (error out = Some ''Unable to load return data right now.''
                \<or> error out = Some ''No data available for the selected gold type.''))"
proof -
  have "processedEntries toNumber topt = Throw
      \<or> processedEntries toNumber topt = Normal None
      \<or> (\<exists>points. processedEntries toNumber topt = Normal (Some points))" for topt
    by (cases "processedEntries toNumber topt") (auto split: option.splits)
  have thrown: "processedEntries toNumber topt = Throw \<Longrightarrow>
      fetchData h toNumber (Resolved topt) st =
        st\<lparr>loading := False, error := Some ''Unable to load return data right now.'', entries := [],
           chartData := None, stats := None, activePresetDays := None\<rparr>" for topt
    by (simp add: fetchData_def)
  have nodata: "processedEntries toNumber topt = Normal None \<Longrightarrow>
      fetchData h toNumber (Resolved topt) st =
        st\<lparr>loading := False, error := Some ''No data available for the selected gold type.'', entries := [],
           chartData := None, stats := None, activePresetDays := None\<rparr>" for topt
    by (simp add: fetchData_def)
  show ?thesis
  proof (cases response)
    case Rejected
    then show ?thesis by (simp add: assms fetchData_def)
  next
    case (Resolved topt)
    show ?thesis
    proof (cases "processedEntries toNumber topt")
      case Throw
      then show ?thesis unfolding assms Resolved thrown[OF Throw] by simp
    next
      case (Normal popt)
      show ?thesis
      proof (cases popt)
        case None
        then have n: "processedEntries toNumber topt = Normal None" using Normal by simp
        show ?thesis unfolding assms Resolved nodata[OF n] by simp
      next
        case (Some points)
        have p: "processedEntries toNumber topt = Normal (Some points)" using Normal Some by simp
        have "js_sort (byDate h) points \<noteq> []" if "points \<noteq> []"
          using that length_js_sort[of "byDate h" points] by auto
        then show ?thesis
          unfolding assms Resolved fetchData_entries[OF p] by simp
      qed
    qed
  qed
qed

text \<open>
  C10 (as amended). Every operation is a total function, so each one returns. The moving
  average always returns a sequence of the length of its input. \<open>fetchData\<close> ends in
  exactly one of a stored non-empty series with no error and an empty series with one of
  its two error messages. The daily change and the spread operations end in one of three
  outcomes: a result (chart and stats set, no error), the tagged error (chart and stats
  null, the message set) exactly when the request fails or a price array is missing from a
  payload that is long enough, and a cleared state (chart, stats and error all null)
  exactly when the response has no trends or no dates, or too few points are valid: fewer
  than two for the daily change, none for the spread. The return pass ends in one of three
  outcomes as well: the state exactly as it was when the series is empty, a date is empty
  or a date is not a date of the series, and otherwise exactly one of a tagged error
  (message set, chart and stats null) and a result (chart and stats set, no error).
\<close>

theorem engineOperations_outcomes:
  assumes "outF = fetchData h toNumberF responseF stF"
    and "outC = fetchChangeData h toNumberC responseC stC"
    and "outS = fetchSpreadData h toNumberS responseS stS"
  shows "length (calculateMovingAverage v w) = length v
   \<and> ((entries outF \<noteq> [] \<and> error outF = None)
       \<noteq> (entries outF = []
            \<and> (error outF = Some ''Unable to load return data right now.''
                \<or> error outF = Some ''No data available for the selected gold type.'')))
   \<and> ((chartData outC \<noteq> None \<and> stats outC \<noteq> None \<and> error outC = None)
       \<or> (chartData outC = None \<and> stats outC = None
            \<and> error outC = Some ''Unable to load daily change data right now.'')
       \<or> (chartData outC = None \<and> stats outC = None \<and> error outC = None))
   \<and> ((chartData outC = None \<and> stats outC = None \<and> error outC = None) \<longleftrightarrow>
       (case responseC of
          Rejected \<Rightarrow> False
        | Resolved None \<Rightarrow> True
        | Resolved (Some t) \<Rightarrow>
            (case dates t of
               None \<Rightarrow> True
             | Some ds \<Rightarrow>
                 length ds < 2 \<or>
                 (case buy_prices t of
                    None \<Rightarrow> False
                  | Some bs \<Rightarrow>
                      length (filter (\<lambda>idx. js_isFinite (Number_at toNumberC bs idx)) [0..<length ds]) < 2))))
   \<and> ((chartData outC = None \<and> stats outC = None
          \<and> error outC = Some ''Unable to load daily change data right now.'') \<longleftrightarrow>
       (case responseC of
          Rejected \<Rightarrow> True
        | Resolved None \<Rightarrow> False
        | Resolved (Some t) \<Rightarrow>
            (case dates t of
               None \<Rightarrow> False
             | Some ds \<Rightarrow> 2 \<le> length ds \<and> buy_prices t = None)))
   \<and> ((chartData outS \<noteq> None \<and> stats outS \<noteq> None \<and> error outS = None)
       \<or> (chartData outS = None \<and> stats outS = None
            \<and> error outS = Some ''Unable to load spread trend data right now.'')
       \<or> (chartData outS = None \<and> stats outS = None \<and> error outS = None))
   \<and> ((chartData outS = None \<and> stats outS = None \<and> error outS = None) \<longleftrightarrow>
       (case responseS of
          Rejected \<Rightarrow> False
        | Resolved None \<Rightarrow> True
        | Resolved (Some t) \<Rightarrow>
            (case dates t of
               None \<Rightarrow> True
             | Some ds \<Rightarrow>
                 ds = [] \<or>
                 (case buy_prices t of
                    None \<Rightarrow> False
                  | Some bs \<Rightarrow>
                      (case sell_prices t of
                         None \<Rightarrow> False
                       | Some ss \<Rightarrow>
                           filter (\<lambda>idx. js_isFinite (Number_at toNumberS bs idx)
                                     \<and> js_isFinite (Number_at toNumberS ss idx)) [0..<length ds] = [])))))
   \<and> ((chartData outS = None \<and> stats outS = None
          \<and> error outS = Some ''Unable to load spread trend data right now.'') \<longleftrightarrow>
       (case responseS of
          Rejected \<Rightarrow> True
        | Resolved None \<Rightarrow> False
        | Resolved (Some t) \<Rightarrow>
            (case dates t of
               None \<Rightarrow> False
             | Some ds \<Rightarrow> ds \<noteq> [] \<and> (buy_prices t = None \<or> sell_prices t = None))))
   \<and> (if entries stR = [] \<or> buyDate stR = [] \<or> sellDate stR = []
          \<or> buyDate stR \<notin> date ` set (entries stR) \<or> sellDate stR \<notin> date ` set (entries stR)
       then returnEffect h stR = stR
       else (error (returnEffect h stR) \<noteq> None \<and> chartData (returnEffect h stR) = None
               \<and> stats (returnEffect h stR) = None)
          \<noteq> (error (returnEffect h stR) = None \<and> chartData (returnEffect h stR) \<noteq> None
               \<and> stats (returnEffect h stR) \<noteq> None))"
proof (intro conjI)
  show "length (calculateMovingAverage v w) = length v"
    by (rule length_calculateMovingAverage)
  show "(entries outF \<noteq> [] \<and> error outF = None)
       \<noteq> (entries outF = []
            \<and> (error outF = Some ''Unable to load return data right now.''
                \<or> error outF = Some ''No data available for the selected gold type.''))"
    using assms(1) by (rule fetchData_outcomes)
  show "(chartData outC \<noteq> None \<and> stats outC \<noteq> None \<and> error outC = None)
       \<or> (chartData outC = None \<and> stats outC = None
            \<and> error outC = Some ''Unable to load daily change data right now.'')
       \<or> (chartData outC = None \<and> stats outC = None \<and> error outC = None)"
    using fetchChangeData_outcomes[OF assms(2)] by (rule conjunct2[THEN conjunct2])
  show "(chartData outC = None \<and> stats outC = None \<and> error outC = None) \<longleftrightarrow>
       (case responseC of
          Rejected \<Rightarrow> False
        | Resolved None \<Rightarrow> True
        | Resolved (Some t) \<Rightarrow>
            (case dates t of
               None \<Rightarrow> True
             | Some ds \<Rightarrow>
                 length ds < 2 \<or>
                 (case buy_prices t of
                    None \<Rightarrow> False
                  | Some bs \<Rightarrow>
                      length (filter (\<lambda>idx. js_isFinite (Number_at toNumberC bs idx)) [0..<length ds]) < 2)))"
    using fetchChangeData_outcomes[OF assms(2)] by (rule conjunct1)
  show "(chartData outC = None \<and> stats outC = None
          \<and> error outC = Some ''Unable to load daily change data right now.'') \<longleftrightarrow>
       (case responseC of
          Rejected \<Rightarrow> True
        | Resolved None \<Rightarrow> False
        | Resolved (Some t) \<Rightarrow>
            (case dates t of
               None \<Rightarrow> False
             | Some ds \<Rightarrow> 2 \<le> length ds \<and> buy_prices t = None))"
    using fetchChangeData_outcomes[OF assms(2)] by (rule conjunct2[THEN conjunct1])
  show "(chartData outS \<noteq> None \<and> stats outS \<noteq> None \<and> error outS = None)
       \<or> (chartData outS = None \<and> stats outS = None
            \<and> error outS = Some ''Unable to load spread trend data right now.'')
       \<or> (chartData outS = None \<and> stats outS = None \<and> error outS = None)"
    using fetchSpreadData_outcomes[OF assms(3)] by (rule conjunct2[THEN conjunct2])
  show "(chartData outS = None \<and> stats outS = None \<and> error outS = None) \<longleftrightarrow>
       (case responseS of
          Rejected \<Rightarrow> False
        | Resolved None \<Rightarrow> True
        | Resolved (Some t) \<Rightarrow>
            (case dates t of
               None \<Rightarrow> True
             | Some ds \<Rightarrow>
                 ds = [] \<or>
                 (case buy_prices t of
                    None \<Rightarrow> False
                  | Some bs \<Rightarrow>
                      (case sell_prices t of
                         None \<Rightarrow> False
                       | Some ss \<Rightarrow>
                           filter (\<lambda>idx. js_isFinite (Number_at toNumberS bs idx)
                                     \<and> js_isFinite (Number_at toNumberS ss idx)) [0..<length ds] = []))))"
    using fetchSpreadData_outcomes[OF assms(3)] by (rule conjunct1)
  show "(chartData outS = None \<and> stats outS = None
          \<and> error outS = Some ''Unable to load spread trend data right now.'') \<longleftrightarrow>
       (case responseS of
          Rejected \<Rightarrow> True
        | Resolved None \<Rightarrow> False
        | Resolved (Some t) \<Rightarrow>
            (case dates t of
               None \<Rightarrow> False
             | Some ds \<Rightarrow> ds \<noteq> [] \<and> (buy_prices t = None \<or> sell_prices t = None)))"
    using fetchSpreadData_outcomes[OF assms(3)] by (rule conjunct2[THEN conjunct1])
  show "if entries stR = [] \<or> buyDate stR = [] \<or> sellDate stR = []
          \<or> buyDate stR \<notin> date ` set (entries stR) \<or> sellDate stR \<notin> date ` set (entries stR)
       then returnEffect h stR = stR
       else (error (returnEffect h stR) \<noteq> None \<and> chartData (returnEffect h stR) = None
               \<and> stats (returnEffect h stR) = None)
          \<noteq> (error (returnEffect h stR) = None \<and> chartData (returnEffect h stR) \<noteq> None
               \<and> stats (returnEffect h stR) \<noteq> None)"
    by (rule returnEffect_outcomes)
qed

theorem engineOperations_outcomes_witness:
  "length (calculateMovingAverage [Fin 1, Fin 2] 3) = 2
   \<and> error (fetchData utc_host (\<lambda>x. x)
       (Resolved (Some \<lparr>dates = Some [''2025-01-01'', ''2025-01-02'', ''2025-01-03''],
          buy_prices = Some [Fin 100, Fin 105, Fin 120],
          sell_prices = Some [Fin 110, Fin 115, Fin 130]\<rparr>))
       \<lparr>chartData = None, stats = None, error = Some ''Unable to load return data right now.'',
        loading = False, entries = [], buyDate = [], sellDate = [], activePresetDays = None\<rparr>) = None
   \<and> chartData (fetchChangeData utc_host (\<lambda>x. x) Rejected
       \<lparr>chartData = Some \<lparr>labels = [''02/01/2025''], data = [Fin 1]\<rparr>, stats = None,
        error = Some ''stale'', loading = False\<rparr>) = None
   \<and> chartData (fetchChangeData utc_host (\<lambda>x. x) (Resolved None)
       \<lparr>chartData = Some \<lparr>labels = [''02/01/2025''], data = [Fin 1]\<rparr>, stats = None,
        error = Some ''stale'', loading = False\<rparr>) = None
   \<and> error (fetchChangeData utc_host (\<lambda>x. x) (Resolved None)
       \<lparr>chartData = Some \<lparr>labels = [''02/01/2025''], data = [Fin 1]\<rparr>, stats = None,
        error = Some ''stale'', loading = False\<rparr>) = None
   \<and> chartData (fetchChangeData utc_host (\<lambda>x. x)
       (Resolved (Some \<lparr>dates = Some [''2025-01-01'', ''2025-01-02'', ''2025-01-03''],
          buy_prices = Some [Fin 100, NaN, NaN], sell_prices = None\<rparr>))
       \<lparr>chartData = Some \<lparr>labels = [''02/01/2025''], data = [Fin 1]\<rparr>, stats = None,
        error = Some ''stale'', loading = False\<rparr>) = None
   \<and> chartData (fetchSpreadData utc_host (\<lambda>x. x)
       (Resolved (Some \<lparr>dates = Some [], buy_prices = Some [], sell_prices = Some []\<rparr>))
       \<lparr>chartData = Some \<lparr>labels = [''02/01/2025''], data = [Fin 1]\<rparr>, stats = None,
        error = Some ''stale'', loading = False\<rparr>) = None
   \<and> error (fetchSpreadData utc_host (\<lambda>x. x)
       (Resolved (Some \<lparr>dates = Some [], buy_prices = Some [], sell_prices = Some []\<rparr>))
       \<lparr>chartData = Some \<lparr>labels = [''02/01/2025''], data = [Fin 1]\<rparr>, stats = None,
        error = Some ''stale'', loading = False\<rparr>) = None
   \<and> returnEffect utc_host
       \<lparr>chartData = Some \<lparr>labels = [''01/01/2025''], data = [Fin 7], absoluteData = [Fin 8]\<rparr>,
        stats = None, error = None, loading = False,
        entries = [\<lparr>date = ''2025-01-01'', buy = Fin 100, sell = Fin 110\<rparr>,
                   \<lparr>date = ''2025-01-02'', buy = Fin 105, sell = Fin 115\<rparr>,
                   \<lparr>date = ''2025-01-03'', buy = Fin 120, sell = Fin 130\<rparr>],
        buyDate = ''2025-01-01'', sellDate = ''2025-03-01'', activePresetDays = None\<rparr>
     = \<lparr>chartData = Some \<lparr>labels = [''01/01/2025''], data = [Fin 7], absoluteData = [Fin 8]\<rparr>,
        stats = None, error = None, loading = False,
        entries = [\<lparr>date = ''2025-01-01'', buy = Fin 100, sell = Fin 110\<rparr>,
                   \<lparr>date = ''2025-01-02'', buy = Fin 105, sell = Fin 115\<rparr>,
                   \<lparr>date = ''2025-01-03'', buy = Fin 120, sell = Fin 130\<rparr>],
        buyDate = ''2025-01-01'', sellDate = ''2025-03-01'', activePresetDays = None\<rparr>
   \<and> chartData (returnEffect utc_host
       \<lparr>chartData = None, stats = None, error = None, loading = False,
        entries = [\<lparr>date = ''2025-01-01'', buy = Fin 100, sell = Fin 110\<rparr>,
                   \<lparr>date = ''2025-01-02'', buy = Fin 105, sell = Fin 115\<rparr>,
                   \<lparr>date = ''2025-01-03'', buy = Fin 120, sell = Fin 130\<rparr>],
        buyDate = ''2025-01-01'', sellDate = ''2025-01-03'', activePresetDays = None\<rparr>) \<noteq> None
   \<and> stats (returnEffect utc_host
       \<lparr>chartData = None, stats = None, error = None, loading = False,
        entries = [\<lparr>date = ''2025-01-01'', buy = Fin 100, sell = Fin 110\<rparr>,
                   \<lparr>date = ''2025-01-02'', buy = Fin 105, sell = Fin 115\<rparr>,
                   \<lparr>date = ''2025-01-03'', buy = Fin 120, sell = Fin 130\<rparr>],
        buyDate = ''2025-01-01'', sellDate = ''2025-01-03'', activePresetDays = None\<rparr>) \<noteq> None"
proof -
  let ?es = "[\<lparr>date = ''2025-01-01'', buy = Fin 100, sell = Fin 110\<rparr>,
              \<lparr>date = ''2025-01-02'', buy = Fin 105, sell = Fin 115\<rparr>,
              \<lparr>date = ''2025-01-03'', buy = Fin 120, sell = Fin 130\<rparr>]"
  let ?stale = "\<lparr>chartData = Some \<lparr>labels = [''02/01/2025''], data = [Fin 1]\<rparr>, stats = None,
        error = Some ''stale'', loading = False\<rparr> :: (chart, change_stats) view"
  let ?staleS = "\<lparr>chartData = Some \<lparr>labels = [''02/01/2025''], data = [Fin 1]\<rparr>, stats = None,
        error = Some ''stale'', loading = False\<rparr> :: (chart, spread_stats) view"
  let ?stF = "\<lparr>chartData = None, stats = None, error = Some ''Unable to load return data right now.'',
        loading = False, entries = [], buyDate = [], sellDate = [], activePresetDays = None\<rparr> :: return_view"
  let ?p3 = "\<lparr>dates = Some [''2025-01-01'', ''2025-01-02'', ''2025-01-03''],
          buy_prices = Some [Fin 100, Fin 105, Fin 120],
          sell_prices = Some [Fin 110, Fin 115, Fin 130]\<rparr> :: jsnum trends"
  let ?p1 = "\<lparr>dates = Some [''2025-01-01'', ''2025-01-02'', ''2025-01-03''],
          buy_prices = Some [Fin 100, NaN, NaN], sell_prices = None\<rparr> :: jsnum trends"
  let ?p0 = "\<lparr>dates = Some [], buy_prices = Some [], sell_prices = Some []\<rparr> :: jsnum trends"
  let ?missing = "\<lparr>chartData = Some \<lparr>labels = [''01/01/2025''], data = [Fin 7], absoluteData = [Fin 8]\<rparr>,
        stats = None, error = None, loading = False, entries = ?es,
        buyDate = ''2025-01-01'', sellDate = ''2025-03-01'', activePresetDays = None\<rparr> :: return_view"
  let ?present = "\<lparr>chartData = None, stats = None, error = None, loading = False, entries = ?es,
        buyDate = ''2025-01-01'', sellDate = ''2025-01-03'', activePresetDays = None\<rparr> :: return_view"
  note t = engineOperations_outcomes [OF refl refl refl]
  note tA = t [THEN conjunct1]
  note tF = t [THEN conjunct2, THEN conjunct1]
  note tCi = t [THEN conjunct2, THEN conjunct2, THEN conjunct2, THEN conjunct1]
  note tCe = t [THEN conjunct2, THEN conjunct2, THEN conjunct2, THEN conjunct2, THEN conjunct1]
  note tSi = t [THEN conjunct2, THEN conjunct2, THEN conjunct2, THEN conjunct2, THEN conjunct2,
      THEN conjunct2, THEN conjunct1]
  note tR = t [THEN conjunct2, THEN conjunct2, THEN conjunct2, THEN conjunct2, THEN conjunct2,
      THEN conjunct2, THEN conjunct2, THEN conjunct2]

  have a: "length (calculateMovingAverage [Fin 1, Fin 2] 3) = 2"
    using tA [of "[Fin 1, Fin 2]" 3] by simp

  have p: "processedEntries (\<lambda>x. x) (Some ?p3) = Normal (Some ?es)"
    by (simp add: processedEntries_def map_indexed_def processedEntry_def Number_at_def js_at_def
          filter_Boolean_def upt_conv_Cons)
  have stored: "entries (fetchData utc_host (\<lambda>x. x) (Resolved (Some ?p3)) ?stF) \<noteq> []"
    unfolding fetchData_entries [OF p] by (simp add: js_sort_scenario)
  have f: "error (fetchData utc_host (\<lambda>x. x) (Resolved (Some ?p3)) ?stF) = None"
    using tF [of utc_host "\<lambda>x. x" "Resolved (Some ?p3)" ?stF] stored by blast

  have rej: "chartData (fetchChangeData utc_host (\<lambda>x. x) Rejected ?stale) = None"
    using tCe [of utc_host "\<lambda>x. x" Rejected ?stale] by simp
  have c0: "chartData (fetchChangeData utc_host (\<lambda>x. x) (Resolved None) ?stale) = None
      \<and> stats (fetchChangeData utc_host (\<lambda>x. x) (Resolved None) ?stale) = None
      \<and> error (fetchChangeData utc_host (\<lambda>x. x) (Resolved None) ?stale) = None"
    using tCi [of utc_host "\<lambda>x. x" "Resolved None" ?stale] by simp
  have cnt: "length (filter (\<lambda>idx. js_isFinite (Number_at (\<lambda>x. x) [Fin 100, NaN, NaN] idx))
      [0..<length [''2025-01-01'', ''2025-01-02'', ''2025-01-03'']]) < 2"
    by (simp add: upt_conv_Cons Number_at_def js_at_def)
  have c1: "chartData (fetchChangeData utc_host (\<lambda>x. x) (Resolved (Some ?p1)) ?stale) = None
      \<and> stats (fetchChangeData utc_host (\<lambda>x. x) (Resolved (Some ?p1)) ?stale) = None
      \<and> error (fetchChangeData utc_host (\<lambda>x. x) (Resolved (Some ?p1)) ?stale) = None"
    using tCi [of utc_host "\<lambda>x. x" "Resolved (Some ?p1)" ?stale] cnt by simp

  have s0: "chartData (fetchSpreadData utc_host (\<lambda>x. x) (Resolved (Some ?p0)) ?staleS) = None
      \<and> stats (fetchSpreadData utc_host (\<lambda>x. x) (Resolved (Some ?p0)) ?staleS) = None
      \<and> error (fetchSpreadData utc_host (\<lambda>x. x) (Resolved (Some ?p0)) ?staleS) = None"
    using tSi [of utc_host "\<lambda>x. x" "Resolved (Some ?p0)" ?staleS] by simp

  have silent: "returnEffect utc_host ?missing = ?missing"
    using tR [of ?missing utc_host] by simp

  have ne: "buyDate ?present \<noteq> []" "sellDate ?present \<noteq> []" by simp_all
  have fb: "findIndex (\<lambda>entry. date entry = buyDate ?present) (js_sort (byDate utc_host) (entries ?present)) = int 0"
    by (simp add: js_sort_scenario findIndex_def)
  have fs: "findIndex (\<lambda>entry. date entry = sellDate ?present) (js_sort (byDate utc_host) (entries ?present)) = int 2"
    by (simp add: js_sort_scenario findIndex_def)
  have noerr: "error (returnEffect utc_host ?present) = None"
    unfolding returnEffect_window [OF ne fb fs le0]
    by (simp add: Let_def js_sort_scenario js_le_def)
  have res: "chartData (returnEffect utc_host ?present) \<noteq> None
      \<and> stats (returnEffect utc_host ?present) \<noteq> None"
    using tR [of ?present utc_host] noerr by auto
  show ?thesis
    using a f rej c0 c1 s0 silent res by blast
qed

text \<open>
  C10 (counterexample). On the three-point series with a buy date that is not a date of
  the series, and no chart, stats or error before the pass, there is none after it either:
  neither a result nor an error.
\<close>

theorem returnEngine_silent_counterexample:
  "\<not> ((chartData (returnEffect utc_host
          \<lparr>chartData = None, stats = None, error = None, loading = False,
           entries = [\<lparr>date = ''2025-01-01'', buy = Fin 100, sell = Fin 110\<rparr>,
                      \<lparr>date = ''2025-01-02'', buy = Fin 105, sell = Fin 115\<rparr>,
                      \<lparr>date = ''2025-01-03'', buy = Fin 120, sell = Fin 130\<rparr>],
           buyDate = ''2025-02-01'', sellDate = ''2025-01-03'', activePresetDays = None\<rparr>) \<noteq> None
        \<and> stats (returnEffect utc_host
          \<lparr>chartData = None, stats = None, error = None, loading = False,
           entries = [\<lparr>date = ''2025-01-01'', buy = Fin 100, sell = Fin 110\<rparr>,
                      \<lparr>date = ''2025-01-02'', buy = Fin 105, sell = Fin 115\<rparr>,
                      \<lparr>date = ''2025-01-03'', buy = Fin 120, sell = Fin 130\<rparr>],
           buyDate = ''2025-02-01'', sellDate = ''2025-01-03'', activePresetDays = None\<rparr>) \<noteq> None)
      \<or> error (returnEffect utc_host
          \<lparr>chartData = None, stats = None, error = None, loading = False,
           entries = [\<lparr>date = ''2025-01-01'', buy = Fin 100, sell = Fin 110\<rparr>,
                      \<lparr>date = ''2025-01-02'', buy = Fin 105, sell = Fin 115\<rparr>,
                      \<lparr>date = ''2025-01-03'', buy = Fin 120, sell = Fin 130\<rparr>],
           buyDate = ''2025-02-01'', sellDate = ''2025-01-03'', activePresetDays = None\<rparr>) \<noteq> None)"
  by (simp add: returnEffect_def Let_def js_sort_scenario findIndex_def)

end
